theory Spec2Isabelle
  imports Main "HOL-Library.Extended_Nat"
begin

section \<open>Data model of the download store\<close>

text \<open>
  The store module (the second document of \<^verbatim>\<open>src/pages/Settings.tsx\<close>) keeps download
  tasks, the auto-sync id list and creation tasks in one zustand state, and talks to the
  aria2 daemon, the paginated Twitter source, the file system and two notification sinks.
  Time stamps (\<^verbatim>\<open>Date.now()\<close>, dayjs values) are integers; \<^verbatim>\<open>isAfter\<close> and
  \<^verbatim>\<open>isBefore\<close> are the strict orders on them. Strings are byte lists; the Chinese literals
  of the source are given by their UTF-8 bytes.
\<close>

text \<open>
  Modelled from the spec: the \<^verbatim>\<open>AriaStatus\<close> enumeration of \<^verbatim>\<open>utils/aria2\<close> is not among
  the sources; section 3 of the specification lists its five values.
\<close>

datatype AriaStatus = Waiting | Active | Paused | Error | Complete

text \<open>
  Every \<^verbatim>\<open>throw\<close> and every rejected promise is a value: \<open>NotFound\<close> is the
  \<^verbatim>\<open>Error\<close> thrown by the redownload operations, \<open>DaemonError\<close> a rejected RPC,
  \<open>FetchError\<close> a rejected page fetch, \<open>TypeError\<close> a property read on
  \<^verbatim>\<open>undefined\<close>.
\<close>

datatype failure = NotFound | DaemonError string | FetchError string | TypeError

text \<open>
  The interfaces \<^verbatim>\<open>TwitterMedia\<close>, \<^verbatim>\<open>TwitterPost\<close> and \<^verbatim>\<open>TwitterUser\<close> are opaque to
  the store except for the fields it reads: the type of a media entry, the optional media
  list and the optional creation time of a post, the id of a user.
\<close>

record TwitterMedia =
  m_type :: string
  m_url :: string

record TwitterPost =
  p_id :: string
  medias :: "TwitterMedia list option"
  createdAt :: "int option"

record TwitterUser =
  u_id :: string

text \<open>
  A download task. \<open>totalSize\<close> starts as \<^verbatim>\<open>Infinity\<close>, hence \<^typ>\<open>enat\<close>.
\<close>

record DownloadTask =
  gid :: string
  status :: AriaStatus
  completeSize :: enat
  totalSize :: enat
  fileName :: string
  media :: TwitterMedia
  post :: TwitterPost
  error :: string
  dir :: string
  updatedAt :: int
  downloadUrl :: string
  ariaRetryCountRemains :: int

text \<open>
  The reply of \<^verbatim>\<open>aria2.tellStatus\<close>, with the fields that
  \<^verbatim>\<open>mergeAriaStatusToDownloadTask\<close> reads. \<open>a_files\<close> holds the paths
  \<^verbatim>\<open>files[i].path\<close>; an absent \<^verbatim>\<open>errorMessage\<close> is the empty string (both are falsy).
\<close>

record aria_status =
  a_gid :: string
  a_status :: AriaStatus
  completedLength :: nat
  totalLength :: nat
  a_files :: "string list"
  errorMessage :: string
  a_dir :: string

datatype creation_status = CWaiting | CActive

datatype source = Medias | Tweets

record DownloadFilter =
  f_source :: source
  mediaTypes :: "string list option"
  dateRange :: "(int option \<times> int option) option"

record CreationTask =
  ct_id :: string
  ct_user :: TwitterUser
  ct_filter :: DownloadFilter
  ct_status :: creation_status
  completeCount :: int
  skipCount :: int

record DownloadStore =
  downloadTasks :: "DownloadTask list"
  autoSyncTaskIds :: "string list"
  creationTasks :: "CreationTask list"

subsection \<open>External collaborators\<close>

text \<open>
  The settings store and the helpers imported from other modules are parameters: the
  download settings, \<^verbatim>\<open>getDownloadUrl\<close>, \<^verbatim>\<open>resolveVariables\<close>, \<^verbatim>\<open>path.join\<close>,
  \<^verbatim>\<open>path.basename\<close> and \<^verbatim>\<open>fs.exists\<close>.
\<close>

record env =
  saveDirBase :: string
  dirTemplate :: string
  fileNameTemplate :: string
  sameFileSkip :: bool
  getDownloadUrl :: "TwitterMedia \<Rightarrow> string"
  resolveVariables :: "string \<Rightarrow> TwitterPost \<Rightarrow> TwitterMedia \<Rightarrow> string"
  path_join :: "string \<Rightarrow> string \<Rightarrow> string"
  path_basename :: "string \<Rightarrow> string"
  fs_exists :: "string \<Rightarrow> bool"

text \<open>
  The daemon is given by its replies, as functions of the arguments of each call:
  \<^verbatim>\<open>aria2.addUri\<close> (url, dir, out), \<^verbatim>\<open>tellStatus\<close> of one handle, the batched
  \<^verbatim>\<open>addUri\<close> (its result already flattened) and \<^verbatim>\<open>tellStatus\<close> of a list of handles
  (a map keyed by handle). \<open>Inl\<close> is a rejected call with its message; the operations
  pass it on as a \<open>DaemonError\<close>.
\<close>

record daemon =
  addUri :: "string \<Rightarrow> string \<Rightarrow> string \<Rightarrow> string + string"
  tellStatus :: "string \<Rightarrow> string + aria_status"
  batchAddUri :: "(string \<times> string \<times> string) list \<Rightarrow> string + string list"
  tellStatusMany :: "string list \<Rightarrow> string + (string \<rightharpoonup> aria_status)"

text \<open>
  What an operation did to the outside world, in order: the RPC calls it issued, the
  notifications it raised, the timer or idle callback it set.
\<close>

datatype event =
    RpcAddUri string string string
  | RpcTellStatus string
  | RpcBatchAddUri "(string \<times> string \<times> string) list"
  | RpcTellStatusMany "string list"
  | RpcRemove string
  | RpcBatchRemove "string list"
  | AntNotificationError string string
  | SendNotification string string
  | SetTimeout
  | RequestIdleCallback

text \<open>
  The result of an asynchronous store operation: whether its promise was rejected, the
  events it caused and the store it left.
\<close>

record 's outcome_of =
  failed :: "failure option"
  trace :: "event list"
  final :: 's

type_synonym outcome = "DownloadStore outcome_of"

definition fulfilled :: "event list \<Rightarrow> 's \<Rightarrow> 's outcome_of" where
  "fulfilled evs st = \<lparr>failed = None, trace = evs, final = st\<rparr>"

definition rejected :: "failure \<Rightarrow> event list \<Rightarrow> 's \<Rightarrow> 's outcome_of" where
  "rejected e evs st = \<lparr>failed = Some e, trace = evs, final = st\<rparr>"

subsection \<open>Library functions of the source language\<close>

text \<open>\<^verbatim>\<open>Array.prototype.findIndex\<close>: the first index whose element passes, \<open>None\<close> for -1.\<close>

fun findIndex :: "('a \<Rightarrow> bool) \<Rightarrow> 'a list \<Rightarrow> nat option" where
  "findIndex p [] = None"
| "findIndex p (x # xs) =
     (if p x then Some 0
      else (case findIndex p xs of None \<Rightarrow> None | Some i \<Rightarrow> Some (Suc i)))"

text \<open>
  \<^verbatim>\<open>R.fromPairs\<close> starts from the plain object \<^verbatim>\<open>{}\<close> and assigns the pairs from left
  to right, so the rightmost pair of a key stays. The object has the prototype
  \<^verbatim>\<open>Object.prototype\<close>: a property read \<^verbatim>\<open>obj[k]\<close> gives the entry assigned under \<open>k\<close>,
  else the inherited member when \<open>k\<close> is one of the property names of
  \<^verbatim>\<open>Object.prototype\<close> (a function, or the prototype itself for \<^verbatim>\<open>__proto__\<close>: a truthy
  value that is no entry), else \<^verbatim>\<open>undefined\<close>.
\<close>

datatype 'a member = Absent | Own 'a | Inherited

definition objectPrototypeNames :: "string list" where
  "objectPrototypeNames =
     [''constructor'', ''__defineGetter__'', ''__defineSetter__'', ''hasOwnProperty'',
      ''__lookupGetter__'', ''__lookupSetter__'', ''isPrototypeOf'', ''propertyIsEnumerable'',
      ''toString'', ''valueOf'', ''__proto__'', ''toLocaleString'']"

definition getProp :: "(string \<rightharpoonup> 'a) \<Rightarrow> string \<Rightarrow> 'a member" where
  "getProp obj k =
     (case obj k of
        Some v \<Rightarrow> Own v
      | None \<Rightarrow> if k \<in> set objectPrototypeNames then Inherited else Absent)"

text \<open>
  An assignment under the key \<^verbatim>\<open>__proto__\<close> does not add an entry: it makes the assigned
  object the prototype of the object under construction, and later reads then see that
  object's fields. What they are depends on interfaces that are not among the sources, so
  \<open>fromPairs\<close> gives \<open>None\<close> for a list with that key and the object otherwise.
\<close>

definition fromPairs :: "(string \<times> 'a) list \<Rightarrow> (string \<rightharpoonup> 'a) option" where
  "fromPairs ps =
     (if ''__proto__'' \<in> fst ` set ps then None
      else Some (fold (\<lambda>kv m. m(fst kv \<mapsto> snd kv)) ps Map.empty))"

text \<open>
  What an operation leaves in a place typed as download tasks: values of that type, or a
  list in which an inherited member of \<^verbatim>\<open>Object.prototype\<close> stands where a record should
  be, or the result of reads through a replaced prototype (see \<open>fromPairs\<close>).
\<close>

datatype 'a typed = Typed 'a | ForeignValue | PrototypeReplaced

section \<open>Preparing and merging records\<close>

definition mergeAriaStatusToDownloadTask ::
  "env \<Rightarrow> aria_status \<Rightarrow> DownloadTask \<Rightarrow> int \<Rightarrow> failure + DownloadTask" where
  "mergeAriaStatusToDownloadTask ev ariaStatus oldTask now =
     (case a_files ariaStatus of
        [] \<Rightarrow> Inl TypeError
      | f # _ \<Rightarrow>
          Inr (oldTask\<lparr>gid := a_gid ariaStatus,
                       status := a_status ariaStatus,
                       completeSize := enat (completedLength ariaStatus),
                       totalSize := enat (totalLength ariaStatus),
                       fileName := path_basename ev f,
                       error := errorMessage ariaStatus,
                       dir := a_dir ariaStatus,
                       updatedAt := now\<rparr>))"

definition prepareDownloadTask ::
  "env \<Rightarrow> int \<Rightarrow> TwitterPost \<Rightarrow> TwitterMedia \<Rightarrow> DownloadTask" where
  "prepareDownloadTask ev now p m =
     (let resolvedDirName =
            (if dirTemplate ev \<noteq> [] then resolveVariables ev (dirTemplate ev) p m else [])
      in \<lparr>gid = [],
          status = Waiting,
          completeSize = 0,
          totalSize = \<infinity>,
          fileName = resolveVariables ev (fileNameTemplate ev) p m,
          media = m,
          post = p,
          error = [],
          dir = path_join ev (saveDirBase ev) resolvedDirName,
          updatedAt = now,
          downloadUrl = getDownloadUrl ev m,
          ariaRetryCountRemains = 5\<rparr>)"

section \<open>Operations of the download store\<close>

definition createDownloadTask ::
  "env \<Rightarrow> int \<Rightarrow> daemon \<Rightarrow> TwitterPost \<Rightarrow> TwitterMedia \<Rightarrow> DownloadStore \<Rightarrow> outcome" where
  "createDownloadTask ev now d p m st =
     (let task = prepareDownloadTask ev now p m;
          call = RpcAddUri (downloadUrl task) (dir task) (fileName task)
      in case addUri d (downloadUrl task) (dir task) (fileName task) of
           Inl e \<Rightarrow> rejected (DaemonError e) [call] st
         | Inr g \<Rightarrow>
             (case tellStatus d g of
                Inl e \<Rightarrow> rejected (DaemonError e) [call, RpcTellStatus g] st
              | Inr s \<Rightarrow>
                  fulfilled [call, RpcTellStatus g]
                    (st\<lparr>downloadTasks :=
                          downloadTasks st @ [task\<lparr>gid := g, status := a_status s\<rparr>]\<rparr>)))"

definition updateDownloadTask :: "DownloadTask \<Rightarrow> int \<Rightarrow> DownloadStore \<Rightarrow> DownloadStore" where
  "updateDownloadTask task now st =
     (let oldTasks = downloadTasks st
      in case findIndex (\<lambda>t. gid t = gid task) oldTasks of
           None \<Rightarrow> st
         | Some oldTaskIndex \<Rightarrow>
             if updatedAt (oldTasks ! oldTaskIndex) > now then st
             else st\<lparr>downloadTasks := oldTasks[oldTaskIndex := task]\<rparr>)"

text \<open>
  For a stored record the callback reads \<^verbatim>\<open>newTaskMap[oldTask.gid]\<close>. An inherited member
  passes the test \<^verbatim>\<open>!newTask\<close>, its \<^verbatim>\<open>updatedAt\<close> is \<^verbatim>\<open>undefined\<close> and the comparison
  with it is false, so the member itself is returned in place of the record.
\<close>

definition batchUpdateDownloadTasks ::
  "DownloadTask list \<Rightarrow> DownloadStore \<Rightarrow> DownloadStore typed" where
  "batchUpdateDownloadTasks tasks st =
     (case fromPairs (map (\<lambda>t. (gid t, t)) tasks) of
        None \<Rightarrow> PrototypeReplaced
      | Some newTaskMap \<Rightarrow>
          (case those
                  (map (\<lambda>oldTask.
                          case getProp newTaskMap (gid oldTask) of
                            Absent \<Rightarrow> Some oldTask
                          | Own newTask \<Rightarrow>
                              Some (if updatedAt newTask < updatedAt oldTask then oldTask
                                    else newTask)
                          | Inherited \<Rightarrow> None)
                       (downloadTasks st)) of
             None \<Rightarrow> ForeignValue
           | Some newTasks \<Rightarrow> Typed (st\<lparr>downloadTasks := newTasks\<rparr>)))"

text \<open>
  The removals do not await the daemon call and only log its failure, so their promise is
  always fulfilled and the daemon's reply is no input.
\<close>

definition removeDownloadTask :: "string \<Rightarrow> DownloadStore \<Rightarrow> outcome" where
  "removeDownloadTask g st =
     fulfilled [RpcRemove g]
       (st\<lparr>downloadTasks := filter (\<lambda>v. gid v \<noteq> g) (downloadTasks st),
           autoSyncTaskIds := filter (\<lambda>v. v \<noteq> g) (autoSyncTaskIds st)\<rparr>)"

definition batchRemoveDownloadTasks :: "string list \<Rightarrow> DownloadStore \<Rightarrow> outcome" where
  "batchRemoveDownloadTasks gids st =
     fulfilled [RpcBatchRemove gids]
       (st\<lparr>downloadTasks := filter (\<lambda>v. gid v \<notin> set gids) (downloadTasks st)\<rparr>)"

text \<open>
  The loop of \<^verbatim>\<open>batchCreateDownloadTask\<close> that gives task \<open>i\<close> the handle \<open>gids[i]\<close> and
  the status \<open>statusMap[task.gid].status\<close>. A handle without an entry in the reply makes
  the property read throw. Past the end of \<open>gids\<close> the handle is \<^verbatim>\<open>undefined\<close>; the reply
  is keyed by the handles asked for and has nothing under that name, so the read throws
  there too.
\<close>

fun assignHandles ::
  "DownloadTask list \<Rightarrow> string list \<Rightarrow> (string \<rightharpoonup> aria_status) \<Rightarrow> failure + DownloadTask list" where
  "assignHandles [] gids statusMap = Inr []"
| "assignHandles (task # tasks) [] statusMap = Inl TypeError"
| "assignHandles (task # tasks) (g # gids) statusMap =
     (case statusMap g of
        None \<Rightarrow> Inl TypeError
      | Some s \<Rightarrow>
          (case assignHandles tasks gids statusMap of
             Inl e \<Rightarrow> Inl e
           | Inr rest \<Rightarrow> Inr (task\<lparr>gid := g, status := a_status s\<rparr> # rest)))"

definition batchCreateDownloadTask ::
  "env \<Rightarrow> int \<Rightarrow> daemon \<Rightarrow> (TwitterPost \<times> TwitterMedia) list \<Rightarrow> DownloadStore \<Rightarrow> outcome" where
  "batchCreateDownloadTask ev now d paramsList st =
     (let tasks = map (\<lambda>pm. prepareDownloadTask ev now (fst pm) (snd pm)) paramsList
      in if tasks = [] then fulfilled [] st
         else
           (let calls = map (\<lambda>t. (downloadUrl t, dir t, fileName t)) tasks
            in case batchAddUri d calls of
                 Inl e \<Rightarrow> rejected (DaemonError e) [RpcBatchAddUri calls] st
               | Inr gids \<Rightarrow>
                   (case tellStatusMany d gids of
                      Inl e \<Rightarrow>
                        rejected (DaemonError e)
                          [RpcBatchAddUri calls, RpcTellStatusMany gids] st
                    | Inr statusMap \<Rightarrow>
                        (case assignHandles tasks gids statusMap of
                           Inl e \<Rightarrow>
                             rejected e [RpcBatchAddUri calls, RpcTellStatusMany gids] st
                         | Inr tasks' \<Rightarrow>
                             fulfilled [RpcBatchAddUri calls, RpcTellStatusMany gids]
                               (st\<lparr>downloadTasks := downloadTasks st @ tasks'\<rparr>)))))"

text \<open>Running one operation after another: the events add up, the later result stands.\<close>

definition after :: "outcome \<Rightarrow> outcome \<Rightarrow> outcome" where
  "after first second = second\<lparr>trace := trace first @ trace second\<rparr>"

definition redownloadTask ::
  "env \<Rightarrow> int \<Rightarrow> daemon \<Rightarrow> string \<Rightarrow> DownloadStore \<Rightarrow> outcome" where
  "redownloadTask ev now d g st =
     (case find (\<lambda>t. gid t = g) (downloadTasks st) of
        None \<Rightarrow> rejected NotFound [] st
      | Some oldTask \<Rightarrow>
          (let removed = removeDownloadTask (gid oldTask) st
           in after removed
                (createDownloadTask ev now d (post oldTask) (media oldTask) (final removed))))"

definition batchRedownloadTask ::
  "env \<Rightarrow> int \<Rightarrow> daemon \<Rightarrow> string list \<Rightarrow> DownloadStore \<Rightarrow> outcome" where
  "batchRedownloadTask ev now d gids st =
     (let oldTasks = filter (\<lambda>t. gid t \<in> set gids) (downloadTasks st)
      in if length oldTasks = 0 then rejected NotFound [] st
         else
           (let removed = batchRemoveDownloadTasks gids st
            in after removed
                 (batchCreateDownloadTask ev now d
                    (map (\<lambda>task. (post task, media task)) oldTasks) (final removed))))"

subsection \<open>On-demand synchronisation of one task\<close>

definition msg_failed :: string where
  "msg_failed = [CHR 0xE4, CHR 0xBB, CHR 0xBB, CHR 0xE5, CHR 0x8A, CHR 0xA1, CHR 0xE4, CHR 0xB8,
     CHR 0x8B, CHR 0xE8, CHR 0xBD, CHR 0xBD, CHR 0xE5, CHR 0xA4, CHR 0xB1, CHR 0xE8, CHR 0xB4,
     CHR 0xA5]"

definition unknown_reason :: string where
  "unknown_reason = [CHR 0xE6, CHR 0x9C, CHR 0xAA, CHR 0xE7, CHR 0x9F, CHR 0xA5, CHR 0xE5,
     CHR 0x8E, CHR 0x9F, CHR 0xE5, CHR 0x9B, CHR 0xA0]"

definition failure_desc :: "DownloadTask \<Rightarrow> string" where
  "failure_desc newTask =
     fileName newTask @ [CHR 0x0A] @ (if error newTask \<noteq> [] then error newTask else unknown_reason)"

text \<open>
  \<open>now\<close> is the \<^verbatim>\<open>Date.now()\<close> taken before the status query, \<open>later\<close> the one taken
  after it (inside \<^verbatim>\<open>prepareDownloadTask\<close> or as the default argument of the merge).
  \<open>d0\<close> is the daemon as it answers the first query, \<open>d\<close> as it answers the resubmission
  and the query after it.
\<close>

definition syncDownloadTaskStatus ::
  "env \<Rightarrow> int \<Rightarrow> int \<Rightarrow> daemon \<Rightarrow> daemon \<Rightarrow> string \<Rightarrow> DownloadStore \<Rightarrow> outcome" where
  "syncDownloadTaskStatus ev now later d0 d g st =
     (case findIndex (\<lambda>v. gid v = g) (downloadTasks st) of
        None \<Rightarrow> fulfilled [] st
      | Some index \<Rightarrow>
          (let task = downloadTasks st ! index
           in case tellStatus d0 g of
                Inl e \<Rightarrow> rejected (DaemonError e) [RpcTellStatus g] st
              | Inr st0 \<Rightarrow>
                  if a_status st0 = Error then
                    if ariaRetryCountRemains task > 0 then
                      (let removed = removeDownloadTask (gid task) st;
                           newTask = (prepareDownloadTask ev later (post task) (media task))
                                       \<lparr>ariaRetryCountRemains := ariaRetryCountRemains task - 1\<rparr>;
                           evs = [RpcTellStatus g] @ trace removed @
                                 [RpcAddUri (downloadUrl task) (dir newTask) (fileName newTask)]
                       in case addUri d (downloadUrl task) (dir newTask) (fileName newTask) of
                            Inl e \<Rightarrow> rejected (DaemonError e) evs (final removed)
                          | Inr g' \<Rightarrow>
                              (case tellStatus d (gid task) of
                                 Inl e \<Rightarrow>
                                   rejected (DaemonError e) (evs @ [RpcTellStatus (gid task)])
                                     (final removed)
                               | Inr st1 \<Rightarrow>
                                   fulfilled (evs @ [RpcTellStatus (gid task)])
                                     ((final removed)
                                        \<lparr>downloadTasks :=
                                           downloadTasks (final removed) @
                                           [newTask\<lparr>gid := g', status := a_status st1\<rparr>]\<rparr>)))
                    else
                      (case mergeAriaStatusToDownloadTask ev st0 task later of
                         Inl e \<Rightarrow> rejected e [RpcTellStatus g] st
                       | Inr newTask \<Rightarrow>
                           fulfilled
                             [RpcTellStatus g,
                              AntNotificationError msg_failed (failure_desc newTask),
                              SendNotification msg_failed (failure_desc newTask)]
                             st)
                  else
                    (case mergeAriaStatusToDownloadTask ev st0 task later of
                       Inl e \<Rightarrow> rejected e [RpcTellStatus g] st
                     | Inr newTask \<Rightarrow>
                         fulfilled [RpcTellStatus g] (updateDownloadTask newTask now st))))"

subsection \<open>The background poller\<close>

text \<open>\<^verbatim>\<open>Promise.all\<close>: the list of results, or the first rejection.\<close>

fun promise_all :: "(failure + 'a) list \<Rightarrow> failure + 'a list" where
  "promise_all [] = Inr []"
| "promise_all (Inl e # rs) = Inl e"
| "promise_all (Inr x # rs) =
     (case promise_all rs of Inl e \<Rightarrow> Inl e | Inr xs \<Rightarrow> Inr (x # xs))"

text \<open>
  One run of \<^verbatim>\<open>scheduleAutoSyncTasks\<close>. The event \<open>SetTimeout\<close> is the call
  \<^verbatim>\<open>setTimeout(scheduleAutoSyncTasks, INTERVAL)\<close> that starts the next run; a run whose
  trace lacks it is the last one. What the run leaves in the store is what
  \<open>batchUpdateDownloadTasks\<close> gives.
\<close>

definition scheduleAutoSyncTasks ::
  "env \<Rightarrow> int \<Rightarrow> daemon \<Rightarrow> DownloadStore \<Rightarrow> DownloadStore typed outcome_of" where
  "scheduleAutoSyncTasks ev now d st =
     (let ids = autoSyncTaskIds st
      in if length ids = 0 then fulfilled [SetTimeout] (Typed st)
         else
           (case tellStatusMany d ids of
              Inl e \<Rightarrow> rejected (DaemonError e) [RpcTellStatusMany ids] (Typed st)
            | Inr resultMap \<Rightarrow>
                (case promise_all
                        (map (\<lambda>oldTask.
                                if updatedAt oldTask > now then Inr oldTask
                                else (case resultMap (gid oldTask) of
                                        None \<Rightarrow> Inr oldTask
                                      | Some s \<Rightarrow>
                                          mergeAriaStatusToDownloadTask ev s oldTask now))
                             (downloadTasks st)) of
                   Inl e \<Rightarrow> rejected e [RpcTellStatusMany ids] (Typed st)
                 | Inr newTasks \<Rightarrow>
                     fulfilled [RpcTellStatusMany ids, SetTimeout]
                       (batchUpdateDownloadTasks newTasks st))))"

section \<open>Creation tasks\<close>

definition updateCreationTask :: "CreationTask \<Rightarrow> DownloadStore \<Rightarrow> DownloadStore" where
  "updateCreationTask task st =
     st\<lparr>creationTasks :=
          map (\<lambda>oldTask. if ct_id oldTask = ct_id task then task else oldTask)
              (creationTasks st)\<rparr>"

subsection \<open>The runner\<close>

text \<open>
  The paginated source: a cursor is \<^verbatim>\<open>undefined\<close> (from the start), \<^verbatim>\<open>null\<close> (end of the
  stream) or a string. \<^verbatim>\<open>getUserMedias\<close> and \<^verbatim>\<open>getUserTweets\<close> are parameters;
  \<open>Inl\<close> is a rejected fetch with its message, passed on as a \<open>FetchError\<close>.
\<close>

datatype cursor = Undefined | Null | Cursor string

record page =
  twitterPosts :: "TwitterPost list"
  pg_cursor :: cursor

record twitter =
  getUserMedias :: "string \<Rightarrow> cursor \<Rightarrow> string + page"
  getUserTweets :: "string \<Rightarrow> cursor \<Rightarrow> string + page"

definition getMediaCounts :: "TwitterPost list \<Rightarrow> int" where
  "getMediaCounts posts =
     foldl (\<lambda>acc elem. acc + (case medias elem of None \<Rightarrow> 0 | Some ms \<Rightarrow> int (length ms)))
           0 posts"

text \<open>The three predicates of the first \<^verbatim>\<open>R.allPass\<close>, on the posts of a page.\<close>

definition filterPosts :: "int \<Rightarrow> int \<Rightarrow> TwitterPost list \<Rightarrow> TwitterPost list" where
  "filterPosts since until posts =
     filter (\<lambda>p. (case medias p of None \<Rightarrow> False | Some ms \<Rightarrow> int (length ms) \<ge> 0)
                \<and> (case createdAt p of None \<Rightarrow> True | Some c \<Rightarrow> c < until)
                \<and> (case createdAt p of None \<Rightarrow> True | Some c \<Rightarrow> c > since))
            posts"

text \<open>The predicate of the second \<^verbatim>\<open>R.allPass\<close>, on the media entries of one post.\<close>

definition filterMedias :: "DownloadFilter \<Rightarrow> TwitterMedia list \<Rightarrow> TwitterMedia list" where
  "filterMedias flt ms =
     filter (\<lambda>m. case mediaTypes flt of None \<Rightarrow> False | Some ts \<Rightarrow> m_type m \<in> set ts) ms"

text \<open>
  The inner loop over the entries that passed the type filter: an entry whose target file
  exists is counted as skipped when \<open>sameFileSkip\<close> is set, any other is pushed on
  \<open>paramsList\<close>.
\<close>

fun checkExisting ::
  "env \<Rightarrow> int \<Rightarrow> TwitterPost \<Rightarrow> TwitterMedia list \<Rightarrow>
   int \<times> (TwitterPost \<times> TwitterMedia) list \<Rightarrow> int \<times> (TwitterPost \<times> TwitterMedia) list" where
  "checkExisting ev now p [] acc = acc"
| "checkExisting ev now p (m # ms) (skips, paramsList) =
     (let task = prepareDownloadTask ev now p m;
          filePath = path_join ev (dir task) (fileName task)
      in if sameFileSkip ev \<and> fs_exists ev filePath
         then checkExisting ev now p ms (skips + 1, paramsList)
         else checkExisting ev now p ms (skips, paramsList @ [(p, m)]))"

text \<open>
  The outer loop over the posts that passed the first filter. Such a post has a media list
  (the first predicate of \<open>filterPosts\<close>), so the branch for a missing one is never taken.
\<close>

fun collectParams ::
  "env \<Rightarrow> int \<Rightarrow> DownloadFilter \<Rightarrow> TwitterPost list \<Rightarrow>
   int \<times> (TwitterPost \<times> TwitterMedia) list \<Rightarrow> int \<times> (TwitterPost \<times> TwitterMedia) list" where
  "collectParams ev now flt [] acc = acc"
| "collectParams ev now flt (p # ps) acc =
     (case medias p of
        None \<Rightarrow> collectParams ev now flt ps acc
      | Some ms \<Rightarrow>
          collectParams ev now flt ps (checkExisting ev now p (filterMedias flt ms) acc))"

text \<open>
  What one pass of the loop body computes from a fetched page and the running skip
  counter: the new skip counter and \<open>paramsList\<close>. The body leaves through the same
  \<^verbatim>\<open>updateCreationTask\<close> and \<^verbatim>\<open>continue\<close> when no post survives and when \<open>paramsList\<close>
  is empty, so the first case gives the empty list here.
\<close>

definition filterPage ::
  "env \<Rightarrow> int \<Rightarrow> DownloadFilter \<Rightarrow> int \<Rightarrow> int \<Rightarrow> TwitterPost list \<Rightarrow> int \<Rightarrow>
   int \<times> (TwitterPost \<times> TwitterMedia) list" where
  "filterPage ev now flt since until posts skips =
     (let filteredPosts = filterPosts since until posts;
          filteredCount = getMediaCounts posts - getMediaCounts filteredPosts;
          skips1 = skips + filteredCount
      in if length filteredPosts = 0 then (skips1, [])
         else collectParams ev now flt filteredPosts (skips1, []))"

definition last_createdAt :: "TwitterPost list \<Rightarrow> int \<Rightarrow> int" where
  "last_createdAt posts now =
     (if posts = [] then now
      else (case createdAt (last posts) of None \<Rightarrow> now | Some c \<Rightarrow> c))"

text \<open>
  The \<^verbatim>\<open>while\<close> loop of \<^verbatim>\<open>runCreationTask\<close>. It may run for ever, so it takes fuel and
  returns \<open>None\<close> when the fuel is used up. \<open>aborted k\<close> is what the \<open>k\<close>-th read of
  \<^verbatim>\<open>abortSignal.aborted\<close> gives; \<open>nowms\<close> stands for the \<^verbatim>\<open>Date.now()\<close> of the prepared
  records. The outcome carries the events and the store so far.
\<close>

fun runLoop ::
  "env \<Rightarrow> twitter \<Rightarrow> daemon \<Rightarrow> int \<Rightarrow> (nat \<Rightarrow> bool) \<Rightarrow> CreationTask \<Rightarrow> int \<Rightarrow> int \<Rightarrow>
   nat \<Rightarrow> nat \<Rightarrow> cursor \<Rightarrow> int \<Rightarrow> int \<Rightarrow> int \<Rightarrow> outcome \<Rightarrow> outcome option" where
  "runLoop ev tw d nowms aborted task since until 0 k nextCursor now cc sc out = None"
| "runLoop ev tw d nowms aborted task since until (Suc fuel) k nextCursor now cc sc out =
     (if nextCursor = Null \<or> \<not> now > since then Some out
      else if aborted k then Some out
      else
        (case (if f_source (ct_filter task) = Medias then getUserMedias tw else getUserTweets tw)
                (u_id (ct_user task)) nextCursor of
           Inl e \<Rightarrow> Some (out\<lparr>failed := Some (FetchError e)\<rparr>)
         | Inr pg \<Rightarrow>
             if aborted (k + 1) then Some out
             else
               (let now' = last_createdAt (twitterPosts pg) now;
                    (sc', paramsList) =
                      filterPage ev nowms (ct_filter task) since until (twitterPosts pg) sc
                in if length paramsList = 0 then
                     runLoop ev tw d nowms aborted task since until fuel (k + 2)
                       (pg_cursor pg) now' cc sc'
                       (out\<lparr>final :=
                              updateCreationTask (task\<lparr>completeCount := cc, skipCount := sc'\<rparr>)
                                (final out)\<rparr>)
                   else
                     (let created = batchCreateDownloadTask ev nowms d paramsList (final out);
                          evs = trace out @ trace created
                      in case failed created of
                           Some e \<Rightarrow>
                             Some \<lparr>failed = Some e, trace = evs, final = final created\<rparr>
                         | None \<Rightarrow>
                             (let cc' = cc + int (length paramsList);
                                  out' = \<lparr>failed = None, trace = evs,
                                          final = updateCreationTask
                                                    (task\<lparr>completeCount := cc', skipCount := sc'\<rparr>)
                                                    (final created)\<rparr>
                              in if aborted (k + 2) then Some out'
                                 else runLoop ev tw d nowms aborted task since until fuel (k + 3)
                                        (pg_cursor pg) now' cc' sc' out')))))"

definition runCreationTask ::
  "env \<Rightarrow> twitter \<Rightarrow> daemon \<Rightarrow> int \<Rightarrow> (nat \<Rightarrow> bool) \<Rightarrow> nat \<Rightarrow> int \<Rightarrow> CreationTask \<Rightarrow>
   DownloadStore \<Rightarrow> outcome option" where
  "runCreationTask ev tw d nowms aborted fuel now task st =
     (let since = (case dateRange (ct_filter task) of
                     None \<Rightarrow> 0
                   | Some r \<Rightarrow> (case fst r of None \<Rightarrow> 0 | Some t \<Rightarrow> t));
          until = (case dateRange (ct_filter task) of
                     None \<Rightarrow> now
                   | Some r \<Rightarrow> (case snd r of None \<Rightarrow> now | Some t \<Rightarrow> t))
      in runLoop ev tw d nowms aborted task since until fuel 0 Undefined now 0 0
           (fulfilled [] st))"

subsection \<open>The queue and its scheduler\<close>

text \<open>
  Beside the store the module keeps \<^verbatim>\<open>creationTaskAbortControllerMap\<close>; an entry holds
  whether the controller's signal is aborted. \<open>phase\<close> says where the one chain of
  \<^verbatim>\<open>scheduleCreationTasks\<close> calls stands: waiting for its idle callback, suspended at
  \<^verbatim>\<open>await runCreationTask(task, ...)\<close>, or ended by an exception outside its
  \<^verbatim>\<open>try\<close> block.
\<close>

datatype phase = Idle | Running CreationTask | Stopped

record app =
  store :: DownloadStore
  creationTaskAbortControllerMap :: "string \<rightharpoonup> bool"
  phase :: phase
  emitted :: "event list"

text \<open>\<open>i\<close> is the value of \<^verbatim>\<open>nanoid()\<close>.\<close>

definition createCreationTask :: "string \<Rightarrow> TwitterUser \<Rightarrow> DownloadFilter \<Rightarrow> app \<Rightarrow> app" where
  "createCreationTask i u flt a =
     a\<lparr>creationTaskAbortControllerMap := (creationTaskAbortControllerMap a)(i \<mapsto> False),
       store := (store a)\<lparr>creationTasks :=
                   creationTasks (store a) @
                   [\<lparr>ct_id = i, ct_user = u, ct_filter = flt, ct_status = CWaiting,
                     completeCount = 0, skipCount = 0\<rparr>]\<rparr>\<rparr>"

definition removeCreationTask :: "string \<Rightarrow> app \<Rightarrow> app" where
  "removeCreationTask i a =
     (case creationTaskAbortControllerMap a i of
        None \<Rightarrow> a
      | Some _ \<Rightarrow>
          a\<lparr>creationTaskAbortControllerMap := (creationTaskAbortControllerMap a)(i := None),
            store := (store a)\<lparr>creationTasks :=
                        filter (\<lambda>v. ct_id v \<noteq> i) (creationTasks (store a))\<rparr>\<rparr>)"

text \<open>
  \<^verbatim>\<open>scheduleCreationTasks\<close> up to its \<^verbatim>\<open>await\<close>. The assignment
  \<^verbatim>\<open>task.status = 'active'\<close> writes into the head object of the stored list, and
  \<^verbatim>\<open>updateCreationTask\<close> then replaces every entry with that id.
\<close>

definition scheduleCreationTasks_begin :: "app \<Rightarrow> app" where
  "scheduleCreationTasks_begin a =
     (case creationTasks (store a) of
        [] \<Rightarrow> a\<lparr>emitted := emitted a @ [RequestIdleCallback]\<rparr>
      | task # rest \<Rightarrow>
          if find (\<lambda>t. ct_status t = CActive) (creationTasks (store a)) \<noteq> None
          then a\<lparr>emitted := emitted a @ [RequestIdleCallback]\<rparr>
          else
            (case creationTaskAbortControllerMap a (ct_id task) of
               None \<Rightarrow> a\<lparr>phase := Stopped\<rparr>
             | Some signal_aborted \<Rightarrow>
                 if signal_aborted
                 then (removeCreationTask (ct_id task) a)
                        \<lparr>emitted := emitted a @ [RequestIdleCallback]\<rparr>
                 else
                   (let task' = task\<lparr>ct_status := CActive\<rparr>;
                        mutated = (store a)\<lparr>creationTasks := task' # rest\<rparr>
                    in a\<lparr>store := updateCreationTask task' mutated,
                         phase := Running task'\<rparr>)))"

definition msg_run_failed :: string where
  "msg_run_failed = [CHR 0xE7, CHR 0x88, CHR 0xAC, CHR 0xE8, CHR 0x99, CHR 0xAB, CHR 0xE4,
     CHR 0xBB, CHR 0xBB, CHR 0xE5, CHR 0x8A, CHR 0xA1, CHR 0xE8, CHR 0xBF, CHR 0x90, CHR 0xE8,
     CHR 0xA1, CHR 0x8C, CHR 0xE5, CHR 0xA4, CHR 0xB1, CHR 0xE8, CHR 0xB4, CHR 0xA5]"

definition msg_not_found :: string where
  "msg_not_found = [CHR 0xE6, CHR 0x89, CHR 0xBE, CHR 0xE4, CHR 0xB8, CHR 0x8D, CHR 0xE5,
     CHR 0x88, CHR 0xB0, CHR 0xE6, CHR 0x97, CHR 0xA7, CHR 0xE7, CHR 0x9A, CHR 0x84, CHR 0xE4,
     CHR 0xB8, CHR 0x8B, CHR 0xE8, CHR 0xBD, CHR 0xBD, CHR 0xE4, CHR 0xBB, CHR 0xBB, CHR 0xE5,
     CHR 0x8A, CHR 0xA1]"

text \<open>
  \<^verbatim>\<open>err?.message || fallback\<close>. The text of a \<^verbatim>\<open>TypeError\<close> is the engine's; only that
  it is not empty matters.
\<close>

fun reason_of :: "failure \<Rightarrow> string" where
  "reason_of NotFound = msg_not_found"
| "reason_of (DaemonError m) = (if m \<noteq> [] then m else unknown_reason)"
| "reason_of (FetchError m) = (if m \<noteq> [] then m else unknown_reason)"
| "reason_of TypeError = ''TypeError''"

text \<open>
  \<^verbatim>\<open>scheduleCreationTasks\<close> from the return of the runner on: \<open>res\<close> is \<open>None\<close> when
  the runner's promise was fulfilled and the failure when it was rejected.
\<close>

definition scheduleCreationTasks_end :: "CreationTask \<Rightarrow> failure option \<Rightarrow> app \<Rightarrow> app" where
  "scheduleCreationTasks_end task res a =
     (let a' = removeCreationTask (ct_id task) a
      in case res of
           None \<Rightarrow> a'\<lparr>phase := Idle, emitted := emitted a' @ [RequestIdleCallback]\<rparr>
         | Some err \<Rightarrow>
             a'\<lparr>phase := Idle,
                emitted := emitted a' @
                  [SendNotification msg_run_failed (reason_of err),
                   AntNotificationError
                     (msg_run_failed @ [CHR 0xEF, CHR 0xBC, CHR 0x9A] @ reason_of err) [],
                   RequestIdleCallback]\<rparr>)"

text \<open>The state at module load: nothing stored, the first scheduler call pending.\<close>

definition init_app :: app where
  "init_app =
     \<lparr>store = \<lparr>downloadTasks = [], autoSyncTaskIds = [], creationTasks = []\<rparr>,
      creationTaskAbortControllerMap = Map.empty, phase = Idle, emitted = []\<rparr>"

text \<open>
  The operations on the queue. Calls of the store's operations run to completion, and the
  scheduler is one chain of calls, so an interleaving is a list of these steps: a user's
  create (with the id that \<^verbatim>\<open>nanoid()\<close> returned), a user's removal, the start of a
  scheduler iteration, the runner publishing its counters, and the end of the iteration
  with the runner's result. An iteration starts only when none is in flight, and the
  runner's steps need one in flight: \<open>step\<close> gives \<open>None\<close> for a step that cannot happen.
\<close>

datatype op =
    Create string TwitterUser DownloadFilter
  | Remove string
  | SchedulerBegin
  | RunnerPublish int int
  | SchedulerEnd "failure option"

fun step :: "op \<Rightarrow> app \<Rightarrow> app option" where
  "step (Create i u flt) a = Some (createCreationTask i u flt a)"
| "step (Remove i) a = Some (removeCreationTask i a)"
| "step SchedulerBegin a =
     (if phase a = Idle then Some (scheduleCreationTasks_begin a) else None)"
| "step (RunnerPublish cc sc) a =
     (case phase a of
        Running task \<Rightarrow>
          Some (a\<lparr>store := updateCreationTask
                              (task\<lparr>completeCount := cc, skipCount := sc\<rparr>) (store a)\<rparr>)
      | _ \<Rightarrow> None)"
| "step (SchedulerEnd res) a =
     (case phase a of
        Running task \<Rightarrow> Some (scheduleCreationTasks_end task res a)
      | _ \<Rightarrow> None)"

fun run :: "op list \<Rightarrow> app \<Rightarrow> app option" where
  "run [] a = Some a"
| "run (x # xs) a = (case step x a of None \<Rightarrow> None | Some a' \<Rightarrow> run xs a')"

text \<open>
  Whether every create of a run comes with an id that no queued task has at that moment,
  as ids drawn by \<^verbatim>\<open>nanoid()\<close> do unless two of them collide.
\<close>

definition fresh_id :: "op \<Rightarrow> app \<Rightarrow> bool" where
  "fresh_id x a =
     (case x of
        Create i u flt \<Rightarrow> i \<notin> ct_id ` set (creationTasks (store a))
      | _ \<Rightarrow> True)"

fun fresh_ids :: "op list \<Rightarrow> app \<Rightarrow> bool" where
  "fresh_ids [] a = True"
| "fresh_ids (x # xs) a =
     (fresh_id x a \<and> (case step x a of None \<Rightarrow> True | Some a' \<Rightarrow> fresh_ids xs a'))"

text \<open>
  What holds after every run with fresh ids: the queued ids are distinct and each
  has a controller; while the scheduler awaits the runner of a task, that task is active
  and only entries with its id are; otherwise no entry is active.
\<close>

definition queue_inv :: "app \<Rightarrow> bool" where
  "queue_inv a \<longleftrightarrow>
     distinct (map ct_id (creationTasks (store a)))
     \<and> ct_id ` set (creationTasks (store a)) \<subseteq> dom (creationTaskAbortControllerMap a)
     \<and> (case phase a of
          Running t \<Rightarrow>
            ct_status t = CActive
            \<and> (\<forall>x\<in>set (creationTasks (store a)). ct_status x = CActive \<longrightarrow> ct_id x = ct_id t)
        | _ \<Rightarrow> \<forall>x\<in>set (creationTasks (store a)). ct_status x \<noteq> CActive)"

text \<open>
  The entries of the surviving posts that pass the type filter, in the order in which the
  loops visit them, and the target path whose existence is checked for an entry.
\<close>

definition typePassing ::
  "DownloadFilter \<Rightarrow> TwitterPost list \<Rightarrow> (TwitterPost \<times> TwitterMedia) list" where
  "typePassing flt posts =
     concat (map (\<lambda>p. case medias p of
                         None \<Rightarrow> []
                       | Some ms \<Rightarrow> map (\<lambda>m. (p, m)) (filterMedias flt ms))
                 posts)"

definition targetExists :: "env \<Rightarrow> int \<Rightarrow> TwitterPost \<times> TwitterMedia \<Rightarrow> bool" where
  "targetExists ev now pm =
     (sameFileSkip ev \<and>
      fs_exists ev (path_join ev (dir (prepareDownloadTask ev now (fst pm) (snd pm)))
                                 (fileName (prepareDownloadTask ev now (fst pm) (snd pm)))))"

definition activeCount :: "app \<Rightarrow> nat" where
  "activeCount a = length (filter (\<lambda>t. ct_status t = CActive) (creationTasks (store a)))"

section \<open>Sample inputs\<close>

definition sample_media :: TwitterMedia where
  "sample_media = \<lparr>m_type = ''photo'', m_url = ''https://pbs.example/1.jpg''\<rparr>"

definition sample_video :: TwitterMedia where
  "sample_video = \<lparr>m_type = ''video'', m_url = ''https://video.example/1.mp4''\<rparr>"

definition sample_post :: TwitterPost where
  "sample_post = \<lparr>p_id = ''p1'', medias = Some [sample_media], createdAt = Some 100\<rparr>"

definition sample_video_post :: TwitterPost where
  "sample_video_post = \<lparr>p_id = ''p2'', medias = Some [sample_video], createdAt = Some 100\<rparr>"

definition sample_env :: env where
  "sample_env =
     \<lparr>saveDirBase = ''/dl'', dirTemplate = [], fileNameTemplate = ''file'',
      sameFileSkip = False,
      getDownloadUrl = m_url,
      resolveVariables = (\<lambda>template p m. template),
      path_join = (\<lambda>a b. if b = [] then a else a @ ''/'' @ b),
      path_basename = (\<lambda>f. ''file''),
      fs_exists = (\<lambda>f. False)\<rparr>"

definition sample_task :: DownloadTask where
  "sample_task =
     \<lparr>gid = ''g1'', status = Active, completeSize = 0, totalSize = \<infinity>, fileName = ''file'',
      media = sample_media, post = sample_post, error = [], dir = ''/dl'', updatedAt = 0,
      downloadUrl = ''https://pbs.example/1.jpg'', ariaRetryCountRemains = 0\<rparr>"

definition sample_store :: "DownloadTask list \<Rightarrow> DownloadStore" where
  "sample_store ts = \<lparr>downloadTasks = ts, autoSyncTaskIds = [''g1''], creationTasks = []\<rparr>"

definition reply :: "AriaStatus \<Rightarrow> string \<Rightarrow> string \<Rightarrow> aria_status" where
  "reply s msg g =
     \<lparr>a_gid = g, a_status = s, completedLength = 10, totalLength = 100,
      a_files = [''/dl/file''], errorMessage = msg, a_dir = ''/dl''\<rparr>"

text \<open>A daemon that reports every job as failed and hands out the handle \<open>g2\<close>.\<close>

definition daemon_reports_error :: daemon where
  "daemon_reports_error =
     \<lparr>addUri = (\<lambda>url d out. Inr ''g2''),
      tellStatus = (\<lambda>g. Inr (reply Error ''timeout'' g)),
      batchAddUri = (\<lambda>calls. Inr (replicate (length calls) ''g2'')),
      tellStatusMany =
        (\<lambda>gs. Inr (\<lambda>g. if g \<in> set gs then Some (reply Error ''timeout'' g) else None))\<rparr>"

text \<open>The same daemon after a resubmission: the new job \<open>g2\<close> is waiting.\<close>

definition daemon_after_resubmit :: daemon where
  "daemon_after_resubmit =
     daemon_reports_error
       \<lparr>tellStatus := (\<lambda>g. if g = ''g2'' then Inr (reply Waiting [] g)
                           else Inr (reply Error ''timeout'' g))\<rparr>"

text \<open>A daemon that cannot be reached, and one that accepts jobs but not status queries.\<close>

definition daemon_down :: daemon where
  "daemon_down =
     \<lparr>addUri = (\<lambda>url d out. Inl ''connection refused''),
      tellStatus = (\<lambda>g. Inl ''connection refused''),
      batchAddUri = (\<lambda>calls. Inl ''connection refused''),
      tellStatusMany = (\<lambda>gs. Inl ''connection refused'')\<rparr>"

definition daemon_mute :: daemon where
  "daemon_mute = daemon_down\<lparr>addUri := (\<lambda>url d out. Inr ''g2'')\<rparr>"

definition sample_filter :: DownloadFilter where
  "sample_filter = \<lparr>f_source = Tweets, mediaTypes = Some [''photo''], dateRange = None\<rparr>"

definition sample_user :: TwitterUser where
  "sample_user = \<lparr>u_id = ''u1''\<rparr>"

text \<open>
  A source with a single page, and a creation task as the scheduler hands it to the runner.
\<close>

definition sample_twitter :: twitter where
  "sample_twitter =
     \<lparr>getUserMedias = (\<lambda>uid c. Inl ''not used''),
      getUserTweets =
        (\<lambda>uid c.
           if c = Undefined
           then Inr \<lparr>twitterPosts =
                       [sample_post\<lparr>createdAt := Some 2000\<rparr>, sample_video_post, sample_post],
                     pg_cursor = Null\<rparr>
           else Inl ''bad cursor'')\<rparr>"

definition sample_ctask :: CreationTask where
  "sample_ctask =
     \<lparr>ct_id = ''a'', ct_user = sample_user, ct_filter = sample_filter, ct_status = CActive,
      completeCount = 0, skipCount = 0\<rparr>"

section \<open>Facts about the library functions\<close>

lemma findIndex_Some:
  "findIndex p xs = Some i \<Longrightarrow> i < length xs \<and> p (xs ! i) \<and> (\<forall>j<i. \<not> p (xs ! j))"
proof (induction xs arbitrary: i)
  case Nil
  then show ?case by simp
next
  case (Cons x xs)
  show ?case
  proof (cases "p x")
    case True
    with Cons.prems show ?thesis by simp
  next
    case False
    with Cons.prems obtain k where k: "findIndex p xs = Some k" "i = Suc k"
      by (auto split: option.splits)
    from Cons.IH[OF k(1)] have ih: "k < length xs" "p (xs ! k)" "\<forall>j<k. \<not> p (xs ! j)"
      by auto
    show ?thesis using ih False k(2) by (auto simp: nth_Cons split: nat.splits)
  qed
qed

lemma findIndex_None: "findIndex p xs = None \<longleftrightarrow> (\<forall>x\<in>set xs. \<not> p x)"
  by (induction xs) (auto split: option.splits)

lemma findIndex_first:
  "i < length xs \<Longrightarrow> p (xs ! i) \<Longrightarrow> (\<forall>j<i. \<not> p (xs ! j)) \<Longrightarrow> findIndex p xs = Some i"
proof (induction xs arbitrary: i)
  case Nil
  then show ?case by simp
next
  case (Cons x xs)
  show ?case
  proof (cases i)
    case 0
    with Cons.prems show ?thesis by simp
  next
    case (Suc k)
    with Cons.prems have "\<not> p x" by auto
    moreover have "findIndex p xs = Some k"
      using Cons.prems Suc by (intro Cons.IH) auto
    ultimately show ?thesis using Suc by simp
  qed
qed

lemma find_append_case:
  "find p (xs @ ys) = (case find p xs of None \<Rightarrow> find p ys | Some x \<Rightarrow> Some x)"
  by (induction xs) auto

lemma find_None_set: "find p xs = None \<longleftrightarrow> (\<forall>x\<in>set xs. \<not> p x)"
  by (induction xs) auto

lemma fold_upd_find:
  "fold (\<lambda>kv m. m(fst kv \<mapsto> snd kv)) (map (\<lambda>t. (gid t, t)) ts) m0 k =
     (case find (\<lambda>t. gid t = k) (rev ts) of None \<Rightarrow> m0 k | Some t \<Rightarrow> Some t)"
proof (induction ts arbitrary: m0)
  case Nil
  then show ?case by simp
next
  case (Cons t ts)
  let ?f = "\<lambda>kv m. m(fst kv \<mapsto> snd kv)"
  have "fold ?f (map (\<lambda>t. (gid t, t)) (t # ts)) m0 k =
        fold ?f (map (\<lambda>t. (gid t, t)) ts) (m0(gid t \<mapsto> t)) k"
    by simp
  also have "\<dots> = (case find (\<lambda>t. gid t = k) (rev ts) of
                      None \<Rightarrow> (m0(gid t \<mapsto> t)) k | Some t \<Rightarrow> Some t)"
    by (rule Cons.IH)
  also have "\<dots> = (case find (\<lambda>t. gid t = k) (rev (t # ts)) of
                      None \<Rightarrow> m0 k | Some t \<Rightarrow> Some t)"
    by (simp add: find_append_case split: option.splits)
  finally show ?case .
qed

lemma fromPairs_Some:
  assumes "''__proto__'' \<notin> gid ` set ts"
  shows "fromPairs (map (\<lambda>t. (gid t, t)) ts) = Some (\<lambda>k. find (\<lambda>t. gid t = k) (rev ts))"
proof -
  have "fst ` set (map (\<lambda>t. (gid t, t)) ts) = gid ` set ts"
    by (simp add: image_image)
  moreover have "fold (\<lambda>kv m. m(fst kv \<mapsto> snd kv)) (map (\<lambda>t. (gid t, t)) ts) Map.empty
                   = (\<lambda>k. find (\<lambda>t. gid t = k) (rev ts))"
    by (rule ext) (simp add: fold_upd_find split: option.splits)
  ultimately show ?thesis
    using assms by (simp only: fromPairs_def if_False)
qed

lemma those_map_Some: "those (map (\<lambda>x. Some (f x)) xs) = Some (map f xs)"
  by (induction xs) simp_all

lemmas sample_defs =
  sample_media_def sample_video_def sample_post_def sample_video_post_def sample_env_def
  sample_task_def sample_store_def reply_def daemon_reports_error_def
  daemon_after_resubmit_def daemon_down_def daemon_mute_def sample_filter_def
  sample_user_def init_app_def

lemmas outcome_defs = fulfilled_def rejected_def after_def

section \<open>The merge guards of the task store\<close>

text \<open>
  C4. The stored record of an incoming record is the first stored record with its handle.
  The single-task merge-update leaves the store as it is when that record's
  \<open>updatedAt\<close> exceeds the comparison time stamp (or when there is no such record).
  Otherwise it puts the incoming record in its place, whole and as it comes: every other
  record and the rest of the store stay, and the stored \<open>updatedAt\<close> is then the incoming
  record's own, whatever the comparison time stamp is.
\<close>

theorem updateDownloadTask_guard:
  assumes "i < length (downloadTasks st)"
    and "gid (downloadTasks st ! i) = gid task"
    and "\<forall>j<i. gid (downloadTasks st ! j) \<noteq> gid task"
  shows "(updatedAt (downloadTasks st ! i) > t \<longrightarrow> updateDownloadTask task t st = st)
       \<and> (\<not> updatedAt (downloadTasks st ! i) > t \<longrightarrow>
            downloadTasks (updateDownloadTask task t st) = (downloadTasks st)[i := task]
          \<and> downloadTasks (updateDownloadTask task t st) ! i = task
          \<and> updatedAt (downloadTasks (updateDownloadTask task t st) ! i) = updatedAt task
          \<and> autoSyncTaskIds (updateDownloadTask task t st) = autoSyncTaskIds st
          \<and> creationTasks (updateDownloadTask task t st) = creationTasks st)"
proof -
  have "findIndex (\<lambda>x. gid x = gid task) (downloadTasks st) = Some i"
    using assms by (intro findIndex_first) auto
  then show ?thesis
    using assms(1) by (simp add: updateDownloadTask_def)
qed

theorem updateDownloadTask_guard_witness:
  "updateDownloadTask (sample_task\<lparr>updatedAt := 7\<rparr>) 5 (sample_store [sample_task\<lparr>updatedAt := 9\<rparr>])
     = sample_store [sample_task\<lparr>updatedAt := 9\<rparr>]
   \<and> downloadTasks (updateDownloadTask (sample_task\<lparr>status := Complete, updatedAt := 5\<rparr>) 5
                      (sample_store [sample_task\<lparr>updatedAt := 5\<rparr>]))
     = [sample_task\<lparr>status := Complete, updatedAt := 5\<rparr>]"
  using updateDownloadTask_guard
          [of 0 "sample_store [sample_task\<lparr>updatedAt := 9\<rparr>]" "sample_task\<lparr>updatedAt := 7\<rparr>" 5]
        updateDownloadTask_guard
          [of 0 "sample_store [sample_task\<lparr>updatedAt := 5\<rparr>]"
              "sample_task\<lparr>status := Complete, updatedAt := 5\<rparr>" 5]
  by (simp add: sample_store_def sample_task_def)

theorem updateDownloadTask_stamp_counterexample:
  "\<not> updatedAt (sample_task\<lparr>updatedAt := 0\<rparr>) > 5
   \<and> updatedAt (downloadTasks
        (updateDownloadTask (sample_task\<lparr>updatedAt := 7\<rparr>) 5
           (sample_store [sample_task\<lparr>updatedAt := 0\<rparr>])) ! 0) = 7
   \<and> updatedAt (downloadTasks
        (updateDownloadTask (sample_task\<lparr>updatedAt := 7\<rparr>) 5
           (sample_store [sample_task\<lparr>updatedAt := 0\<rparr>])) ! 0) \<noteq> 5"
  by (simp add: updateDownloadTask_def sample_store_def sample_task_def)

text \<open>
  C6. Take a store in which no handle is a property name of \<^verbatim>\<open>Object.prototype\<close> and a
  list of incoming records none of which has the handle \<^verbatim>\<open>__proto__\<close>. The batch
  merge-update looks at every stored record in turn. The last incoming record with the
  stored record's handle decides: the stored record stays when there is none or when that
  incoming record's \<open>updatedAt\<close> is strictly older than the stored one, and is replaced
  by it otherwise. Earlier incoming records with the same handle take no part. The list
  keeps its length, so incoming records that match no stored handle add nothing, and
  nothing else in the store changes.
\<close>

theorem batchUpdateDownloadTasks_guard:
  assumes "''__proto__'' \<notin> gid ` set tasks"
    and "gid ` set (downloadTasks st) \<inter> set objectPrototypeNames = {}"
  shows "batchUpdateDownloadTasks tasks st =
           Typed (st\<lparr>downloadTasks :=
                       map (\<lambda>oldTask.
                              case find (\<lambda>t. gid t = gid oldTask) (rev tasks) of
                                None \<Rightarrow> oldTask
                              | Some newTask \<Rightarrow>
                                  if updatedAt newTask < updatedAt oldTask then oldTask
                                  else newTask)
                           (downloadTasks st)\<rparr>)"
proof -
  let ?m = "\<lambda>k. find (\<lambda>t. gid t = k) (rev tasks)"
  let ?pick = "\<lambda>oldTask. case ?m (gid oldTask) of
                             None \<Rightarrow> oldTask
                           | Some newTask \<Rightarrow>
                               if updatedAt newTask < updatedAt oldTask then oldTask
                               else newTask"
  have "map (\<lambda>oldTask.
               case getProp ?m (gid oldTask) of
                 Absent \<Rightarrow> Some oldTask
               | Own newTask \<Rightarrow>
                   Some (if updatedAt newTask < updatedAt oldTask then oldTask else newTask)
               | Inherited \<Rightarrow> None)
            (downloadTasks st)
        = map (\<lambda>oldTask. Some (?pick oldTask)) (downloadTasks st)"
  proof (rule map_cong[OF refl])
    fix oldTask assume "oldTask \<in> set (downloadTasks st)"
    with assms(2) have "gid oldTask \<notin> set objectPrototypeNames" by blast
    then show "(case getProp ?m (gid oldTask) of
                  Absent \<Rightarrow> Some oldTask
                | Own newTask \<Rightarrow>
                    Some (if updatedAt newTask < updatedAt oldTask then oldTask else newTask)
                | Inherited \<Rightarrow> None) = Some (?pick oldTask)"
      by (simp add: getProp_def split: option.splits)
  qed
  then show ?thesis
    by (simp only: batchUpdateDownloadTasks_def fromPairs_Some[OF assms(1)] option.case
                   those_map_Some)
qed

theorem batchUpdateDownloadTasks_guard_witness:
  "batchUpdateDownloadTasks
     [sample_task\<lparr>updatedAt := 1\<rparr>, sample_task\<lparr>status := Complete, updatedAt := 5\<rparr>]
     (sample_store [sample_task\<lparr>updatedAt := 3\<rparr>])
   = Typed (sample_store [sample_task\<lparr>status := Complete, updatedAt := 5\<rparr>])"
  using batchUpdateDownloadTasks_guard
          [of "[sample_task\<lparr>updatedAt := 1\<rparr>, sample_task\<lparr>status := Complete, updatedAt := 5\<rparr>]"
              "sample_store [sample_task\<lparr>updatedAt := 3\<rparr>]"]
  by (simp add: sample_store_def sample_task_def objectPrototypeNames_def)

theorem batchUpdateDownloadTasks_duplicate_counterexample:
  "gid (sample_task\<lparr>updatedAt := 5\<rparr>) = gid (sample_task\<lparr>updatedAt := 3\<rparr>)
   \<and> \<not> updatedAt (sample_task\<lparr>updatedAt := 5\<rparr>) < updatedAt (sample_task\<lparr>updatedAt := 3\<rparr>)
   \<and> batchUpdateDownloadTasks [sample_task\<lparr>updatedAt := 5\<rparr>, sample_task\<lparr>updatedAt := 1\<rparr>]
        (sample_store [sample_task\<lparr>updatedAt := 3\<rparr>])
     = Typed (sample_store [sample_task\<lparr>updatedAt := 3\<rparr>])
   \<and> batchUpdateDownloadTasks [] (sample_store [sample_task\<lparr>gid := ''constructor''\<rparr>])
     = ForeignValue"
  by (simp add: batchUpdateDownloadTasks_def fromPairs_def getProp_def objectPrototypeNames_def
                sample_store_def sample_task_def)

section \<open>Removal\<close>

text \<open>
  C10. Removing one task filters its handle out of the download tasks and out of the
  auto-sync ids, so the handle is in neither afterwards. Removing a batch filters the
  requested handles out of the download tasks only and leaves the auto-sync ids as they
  were; there is a store in which a handle removed by a batch removal is still among the
  auto-sync ids afterwards.
\<close>

theorem removal_frame:
  "downloadTasks (final (removeDownloadTask g st)) = filter (\<lambda>v. gid v \<noteq> g) (downloadTasks st)
   \<and> autoSyncTaskIds (final (removeDownloadTask g st)) = filter (\<lambda>v. v \<noteq> g) (autoSyncTaskIds st)
   \<and> g \<notin> gid ` set (downloadTasks (final (removeDownloadTask g st)))
   \<and> g \<notin> set (autoSyncTaskIds (final (removeDownloadTask g st)))
   \<and> downloadTasks (final (batchRemoveDownloadTasks gids st)) =
       filter (\<lambda>v. gid v \<notin> set gids) (downloadTasks st)
   \<and> autoSyncTaskIds (final (batchRemoveDownloadTasks gids st)) = autoSyncTaskIds st
   \<and> (\<exists>st' gids' g'. g' \<in> set gids' \<and> g' \<in> gid ` set (downloadTasks st')
         \<and> g' \<notin> gid ` set (downloadTasks (final (batchRemoveDownloadTasks gids' st')))
         \<and> g' \<in> set (autoSyncTaskIds (final (batchRemoveDownloadTasks gids' st'))))"
proof -
  let ?st = "sample_store [sample_task]"
  have ex: "''g1'' \<in> set [''g1''] \<and> ''g1'' \<in> gid ` set (downloadTasks ?st)
         \<and> ''g1'' \<notin> gid ` set (downloadTasks (final (batchRemoveDownloadTasks [''g1''] ?st)))
         \<and> ''g1'' \<in> set (autoSyncTaskIds (final (batchRemoveDownloadTasks [''g1''] ?st)))"
    by (simp add: batchRemoveDownloadTasks_def fulfilled_def sample_store_def sample_task_def)
  have "\<exists>st' gids' g'. g' \<in> set gids' \<and> g' \<in> gid ` set (downloadTasks st')
         \<and> g' \<notin> gid ` set (downloadTasks (final (batchRemoveDownloadTasks gids' st')))
         \<and> g' \<in> set (autoSyncTaskIds (final (batchRemoveDownloadTasks gids' st')))"
    using ex by blast
  then show ?thesis
    by (auto simp: removeDownloadTask_def batchRemoveDownloadTasks_def fulfilled_def)
qed

section \<open>Creating and recreating download tasks\<close>

lemma createDownloadTask_failed_cases:
  "failed (createDownloadTask ev now d p m st) = None \<or>
   (\<exists>e. failed (createDownloadTask ev now d p m st) = Some (DaemonError e))"
  by (simp add: createDownloadTask_def Let_def outcome_defs split: sum.splits)

lemma assignHandles_failure:
  "assignHandles tasks gids statusMap = Inl e \<Longrightarrow> e = TypeError"
  by (induction tasks gids statusMap rule: assignHandles.induct)
     (auto split: option.splits sum.splits)

lemma batchCreateDownloadTask_not_NotFound:
  "failed (batchCreateDownloadTask ev now d paramsList st) \<noteq> Some NotFound"
  by (auto simp: batchCreateDownloadTask_def Let_def outcome_defs
           split: sum.splits dest: assignHandles_failure)

text \<open>
  C8. When the daemon rejects the submission of \<^verbatim>\<open>create\<close>, or accepts it and rejects the
  status query that follows, the caller gets that rejection as a daemon error and the
  store is exactly what it was: no record is added.
\<close>

theorem createDownloadTask_failure:
  assumes "task = prepareDownloadTask ev now p m"
    and "addUri d (downloadUrl task) (dir task) (fileName task) = Inl e
         \<or> (\<exists>g. addUri d (downloadUrl task) (dir task) (fileName task) = Inr g
                \<and> tellStatus d g = Inl e)"
  shows "failed (createDownloadTask ev now d p m st) = Some (DaemonError e)
       \<and> final (createDownloadTask ev now d p m st) = st"
  using assms by (auto simp: createDownloadTask_def Let_def outcome_defs)

theorem createDownloadTask_failure_witness:
  "failed (createDownloadTask sample_env 1 daemon_down sample_post sample_media
             (sample_store [sample_task])) = Some (DaemonError ''connection refused'')
   \<and> final (createDownloadTask sample_env 1 daemon_down sample_post sample_media
              (sample_store [sample_task])) = sample_store [sample_task]
   \<and> failed (createDownloadTask sample_env 1 daemon_mute sample_post sample_media
               (sample_store [sample_task])) = Some (DaemonError ''connection refused'')
   \<and> final (createDownloadTask sample_env 1 daemon_mute sample_post sample_media
              (sample_store [sample_task])) = sample_store [sample_task]"
  using createDownloadTask_failure
          [of "prepareDownloadTask sample_env 1 sample_post sample_media" sample_env 1
              sample_post sample_media daemon_down "''connection refused''"
              "sample_store [sample_task]"]
        createDownloadTask_failure
          [of "prepareDownloadTask sample_env 1 sample_post sample_media" sample_env 1
              sample_post sample_media daemon_mute "''connection refused''"
              "sample_store [sample_task]"]
  by (simp add: daemon_down_def daemon_mute_def)

text \<open>
  C9. \<^verbatim>\<open>redownload\<close> is rejected with NotFound exactly when no stored record has the
  handle, and then leaves the store as it is. Otherwise it removes every record with the
  handle (from the download tasks and the auto-sync ids) and submits a job prepared from
  the post and media of the old record, with the retry counter 5. When the daemon accepts
  the submission and answers the status query, that record is added with the daemon's new
  handle and status; when the daemon rejects either call, the call's error surfaces,
  nothing is added and the old record stays removed. The batch variant is rejected with
  NotFound exactly when no requested handle is the handle of a stored record.
\<close>

theorem redownloadTask_notFound:
  "(failed (redownloadTask ev now d g st) = Some NotFound
      \<longleftrightarrow> g \<notin> gid ` set (downloadTasks st))
   \<and> (g \<notin> gid ` set (downloadTasks st) \<longrightarrow> final (redownloadTask ev now d g st) = st)
   \<and> (\<forall>oldTask fresh.
         find (\<lambda>t. gid t = g) (downloadTasks st) = Some oldTask \<longrightarrow>
         fresh = prepareDownloadTask ev now (post oldTask) (media oldTask) \<longrightarrow>
           post fresh = post oldTask \<and> media fresh = media oldTask
         \<and> ariaRetryCountRemains fresh = 5
         \<and> autoSyncTaskIds (final (redownloadTask ev now d g st)) =
             filter (\<lambda>v. v \<noteq> g) (autoSyncTaskIds st)
         \<and> (case addUri d (downloadUrl fresh) (dir fresh) (fileName fresh) of
              Inl e \<Rightarrow>
                failed (redownloadTask ev now d g st) = Some (DaemonError e)
                \<and> downloadTasks (final (redownloadTask ev now d g st)) =
                    filter (\<lambda>v. gid v \<noteq> g) (downloadTasks st)
            | Inr g' \<Rightarrow>
                (case tellStatus d g' of
                   Inl e \<Rightarrow>
                     failed (redownloadTask ev now d g st) = Some (DaemonError e)
                     \<and> downloadTasks (final (redownloadTask ev now d g st)) =
                         filter (\<lambda>v. gid v \<noteq> g) (downloadTasks st)
                 | Inr s \<Rightarrow>
                     failed (redownloadTask ev now d g st) = None
                     \<and> downloadTasks (final (redownloadTask ev now d g st)) =
                         filter (\<lambda>v. gid v \<noteq> g) (downloadTasks st) @
                         [fresh\<lparr>gid := g', status := a_status s\<rparr>])))
   \<and> (failed (batchRedownloadTask ev now d gids st) = Some NotFound
      \<longleftrightarrow> set gids \<inter> gid ` set (downloadTasks st) = {})"
proof (intro conjI allI impI)
  show "failed (redownloadTask ev now d g st) = Some NotFound
          \<longleftrightarrow> g \<notin> gid ` set (downloadTasks st)"
  proof (cases "find (\<lambda>t. gid t = g) (downloadTasks st)")
    case None
    then have "g \<notin> gid ` set (downloadTasks st)"
      by (auto simp: find_None_set)
    with None show ?thesis by (simp add: redownloadTask_def outcome_defs)
  next
    case (Some oldTask)
    then have "g \<in> gid ` set (downloadTasks st)"
      by (auto simp: find_Some_iff)
    moreover have "failed (redownloadTask ev now d g st) \<noteq> Some NotFound"
      using createDownloadTask_failed_cases
              [of ev now d "post oldTask" "media oldTask"
                  "final (removeDownloadTask (gid oldTask) st)"]
      by (auto simp: redownloadTask_def Some Let_def after_def)
    ultimately show ?thesis by simp
  qed
next
  assume "g \<notin> gid ` set (downloadTasks st)"
  then have "find (\<lambda>t. gid t = g) (downloadTasks st) = None"
    by (auto simp: find_None_set)
  then show "final (redownloadTask ev now d g st) = st"
    by (simp add: redownloadTask_def outcome_defs)
next
  fix oldTask fresh
  assume found: "find (\<lambda>t. gid t = g) (downloadTasks st) = Some oldTask"
    and fresh: "fresh = prepareDownloadTask ev now (post oldTask) (media oldTask)"
  from found have g: "gid oldTask = g" by (auto simp: find_Some_iff)
  show "post fresh = post oldTask" "media fresh = media oldTask"
       "ariaRetryCountRemains fresh = 5"
    using fresh by (simp_all add: prepareDownloadTask_def Let_def)
  show "autoSyncTaskIds (final (redownloadTask ev now d g st)) =
          filter (\<lambda>v. v \<noteq> g) (autoSyncTaskIds st)"
    using found fresh g
    by (simp add: redownloadTask_def createDownloadTask_def removeDownloadTask_def Let_def
                  outcome_defs split: sum.splits)
  show "case addUri d (downloadUrl fresh) (dir fresh) (fileName fresh) of
          Inl e \<Rightarrow>
            failed (redownloadTask ev now d g st) = Some (DaemonError e)
            \<and> downloadTasks (final (redownloadTask ev now d g st)) =
                filter (\<lambda>v. gid v \<noteq> g) (downloadTasks st)
        | Inr g' \<Rightarrow>
            (case tellStatus d g' of
               Inl e \<Rightarrow>
                 failed (redownloadTask ev now d g st) = Some (DaemonError e)
                 \<and> downloadTasks (final (redownloadTask ev now d g st)) =
                     filter (\<lambda>v. gid v \<noteq> g) (downloadTasks st)
             | Inr s \<Rightarrow>
                 failed (redownloadTask ev now d g st) = None
                 \<and> downloadTasks (final (redownloadTask ev now d g st)) =
                     filter (\<lambda>v. gid v \<noteq> g) (downloadTasks st) @
                     [fresh\<lparr>gid := g', status := a_status s\<rparr>])"
    using found fresh g
    by (simp add: redownloadTask_def createDownloadTask_def removeDownloadTask_def Let_def
                  outcome_defs split: sum.splits)
next
  have eq: "filter (\<lambda>t. gid t \<in> set gids) (downloadTasks st) = []
              \<longleftrightarrow> set gids \<inter> gid ` set (downloadTasks st) = {}"
    by (auto simp: filter_empty_conv)
  show "failed (batchRedownloadTask ev now d gids st) = Some NotFound
          \<longleftrightarrow> set gids \<inter> gid ` set (downloadTasks st) = {}"
  proof (cases "filter (\<lambda>t. gid t \<in> set gids) (downloadTasks st) = []")
    case True
    then show ?thesis using eq by (simp add: batchRedownloadTask_def Let_def outcome_defs)
  next
    case False
    then show ?thesis
      using eq batchCreateDownloadTask_not_NotFound
      by (simp add: batchRedownloadTask_def Let_def after_def)
  qed
qed

theorem redownloadTask_notFound_witness:
  "failed (redownloadTask sample_env 1 daemon_after_resubmit ''g9'' (sample_store [sample_task]))
     = Some NotFound
   \<and> final (redownloadTask sample_env 1 daemon_after_resubmit ''g9'' (sample_store [sample_task]))
     = sample_store [sample_task]
   \<and> failed (redownloadTask sample_env 1 daemon_after_resubmit ''g1'' (sample_store [sample_task]))
     = None
   \<and> map gid (downloadTasks (final (redownloadTask sample_env 1 daemon_after_resubmit ''g1''
                                       (sample_store [sample_task])))) = [''g2'']
   \<and> ariaRetryCountRemains sample_task = 0
   \<and> map ariaRetryCountRemains
        (downloadTasks (final (redownloadTask sample_env 1 daemon_after_resubmit ''g1''
                                 (sample_store [sample_task])))) = [5]
   \<and> failed (redownloadTask sample_env 1 daemon_mute ''g1'' (sample_store [sample_task]))
     = Some (DaemonError ''connection refused'')
   \<and> downloadTasks (final (redownloadTask sample_env 1 daemon_mute ''g1''
                             (sample_store [sample_task]))) = []
   \<and> failed (batchRedownloadTask sample_env 1 daemon_after_resubmit [''g8'', ''g9'']
               (sample_store [sample_task])) = Some NotFound"
proof -
  note thm9 = redownloadTask_notFound
                [of sample_env 1 daemon_after_resubmit "''g9''" "sample_store [sample_task]"
                    "[''g8'', ''g9'']"]
  note thm1 = redownloadTask_notFound
                [of sample_env 1 daemon_after_resubmit "''g1''" "sample_store [sample_task]"
                    "[''g8'', ''g9'']"]
  note thm2 = redownloadTask_notFound
                [of sample_env 1 daemon_mute "''g1''" "sample_store [sample_task]"
                    "[''g8'', ''g9'']"]
  have a: "failed (redownloadTask sample_env 1 daemon_after_resubmit ''g9''
                     (sample_store [sample_task])) = Some NotFound
         \<and> final (redownloadTask sample_env 1 daemon_after_resubmit ''g9''
                     (sample_store [sample_task])) = sample_store [sample_task]
         \<and> failed (batchRedownloadTask sample_env 1 daemon_after_resubmit [''g8'', ''g9'']
                     (sample_store [sample_task])) = Some NotFound"
    using thm9 by (simp add: sample_store_def sample_task_def)
  have found: "find (\<lambda>t. gid t = ''g1'') (downloadTasks (sample_store [sample_task]))
                 = Some sample_task"
    by (simp add: sample_store_def sample_task_def)
  let ?fresh = "prepareDownloadTask sample_env 1 (post sample_task) (media sample_task)"
  have add: "addUri daemon_after_resubmit (downloadUrl ?fresh) (dir ?fresh) (fileName ?fresh)
               = Inr ''g2''"
    by (simp add: daemon_after_resubmit_def daemon_reports_error_def)
  have tell: "tellStatus daemon_after_resubmit ''g2'' = Inr (reply Waiting [] ''g2'')"
    by (simp add: daemon_after_resubmit_def daemon_reports_error_def)
  have add2: "addUri daemon_mute (downloadUrl ?fresh) (dir ?fresh) (fileName ?fresh)
                = Inr ''g2''"
    by (simp add: daemon_mute_def daemon_down_def)
  have tell2: "tellStatus daemon_mute ''g2'' = Inl ''connection refused''"
    by (simp add: daemon_mute_def daemon_down_def)
  from thm1 found
  have "case addUri daemon_after_resubmit (downloadUrl ?fresh) (dir ?fresh) (fileName ?fresh) of
          Inl e \<Rightarrow>
            failed (redownloadTask sample_env 1 daemon_after_resubmit ''g1''
                      (sample_store [sample_task])) = Some (DaemonError e)
            \<and> downloadTasks (final (redownloadTask sample_env 1 daemon_after_resubmit ''g1''
                                      (sample_store [sample_task]))) =
                filter (\<lambda>v. gid v \<noteq> ''g1'') (downloadTasks (sample_store [sample_task]))
        | Inr g' \<Rightarrow>
            (case tellStatus daemon_after_resubmit g' of
               Inl e \<Rightarrow>
                 failed (redownloadTask sample_env 1 daemon_after_resubmit ''g1''
                           (sample_store [sample_task])) = Some (DaemonError e)
                 \<and> downloadTasks (final (redownloadTask sample_env 1 daemon_after_resubmit ''g1''
                                           (sample_store [sample_task]))) =
                     filter (\<lambda>v. gid v \<noteq> ''g1'') (downloadTasks (sample_store [sample_task]))
             | Inr s \<Rightarrow>
                 failed (redownloadTask sample_env 1 daemon_after_resubmit ''g1''
                           (sample_store [sample_task])) = None
                 \<and> downloadTasks (final (redownloadTask sample_env 1 daemon_after_resubmit ''g1''
                                           (sample_store [sample_task]))) =
                     filter (\<lambda>v. gid v \<noteq> ''g1'') (downloadTasks (sample_store [sample_task])) @
                     [?fresh\<lparr>gid := g', status := a_status s\<rparr>])"
    by blast
  then have c: "failed (redownloadTask sample_env 1 daemon_after_resubmit ''g1''
                     (sample_store [sample_task])) = None
         \<and> downloadTasks (final (redownloadTask sample_env 1 daemon_after_resubmit ''g1''
                                    (sample_store [sample_task]))) =
             filter (\<lambda>v. gid v \<noteq> ''g1'') (downloadTasks (sample_store [sample_task])) @
             [?fresh\<lparr>gid := ''g2'', status := a_status (reply Waiting [] ''g2'')\<rparr>]"
    by (simp only: add tell sum.case)
  from thm1 found have five: "ariaRetryCountRemains ?fresh = 5"
    by blast
  from thm2 found
  have "case addUri daemon_mute (downloadUrl ?fresh) (dir ?fresh) (fileName ?fresh) of
          Inl e \<Rightarrow>
            failed (redownloadTask sample_env 1 daemon_mute ''g1''
                      (sample_store [sample_task])) = Some (DaemonError e)
            \<and> downloadTasks (final (redownloadTask sample_env 1 daemon_mute ''g1''
                                      (sample_store [sample_task]))) =
                filter (\<lambda>v. gid v \<noteq> ''g1'') (downloadTasks (sample_store [sample_task]))
        | Inr g' \<Rightarrow>
            (case tellStatus daemon_mute g' of
               Inl e \<Rightarrow>
                 failed (redownloadTask sample_env 1 daemon_mute ''g1''
                           (sample_store [sample_task])) = Some (DaemonError e)
                 \<and> downloadTasks (final (redownloadTask sample_env 1 daemon_mute ''g1''
                                           (sample_store [sample_task]))) =
                     filter (\<lambda>v. gid v \<noteq> ''g1'') (downloadTasks (sample_store [sample_task]))
             | Inr s \<Rightarrow>
                 failed (redownloadTask sample_env 1 daemon_mute ''g1''
                           (sample_store [sample_task])) = None
                 \<and> downloadTasks (final (redownloadTask sample_env 1 daemon_mute ''g1''
                                           (sample_store [sample_task]))) =
                     filter (\<lambda>v. gid v \<noteq> ''g1'') (downloadTasks (sample_store [sample_task])) @
                     [?fresh\<lparr>gid := g', status := a_status s\<rparr>])"
    by blast
  then have e: "failed (redownloadTask sample_env 1 daemon_mute ''g1''
                     (sample_store [sample_task])) = Some (DaemonError ''connection refused'')
         \<and> downloadTasks (final (redownloadTask sample_env 1 daemon_mute ''g1''
                                    (sample_store [sample_task]))) =
             filter (\<lambda>v. gid v \<noteq> ''g1'') (downloadTasks (sample_store [sample_task]))"
    by (simp only: add2 tell2 sum.case)
  show ?thesis
    using a c five e by (simp add: sample_store_def sample_task_def)
qed

theorem redownloadTask_rejected_counterexample:
  "''g1'' \<in> gid ` set (downloadTasks (sample_store [sample_task]))
   \<and> failed (redownloadTask sample_env 1 daemon_down ''g1'' (sample_store [sample_task]))
     = Some (DaemonError ''connection refused'')
   \<and> downloadTasks (final (redownloadTask sample_env 1 daemon_down ''g1''
                             (sample_store [sample_task]))) = []"
  by (simp add: redownloadTask_def createDownloadTask_def removeDownloadTask_def
                prepareDownloadTask_def Let_def outcome_defs sample_defs)

section \<open>Synchronising one task with the daemon\<close>

lemma sync_exhausted_keeps_store:
  assumes "findIndex (\<lambda>v. gid v = g) (downloadTasks st) = Some i"
    and "tellStatus d0 g = Inr st0" and "a_status st0 = Error"
    and "\<not> ariaRetryCountRemains (downloadTasks st ! i) > 0"
  shows "final (syncDownloadTaskStatus ev now later d0 d g st) = st"
  using assms
  by (simp add: syncDownloadTaskStatus_def Let_def outcome_defs split: sum.splits)

text \<open>
  C1. A run of the on-demand sync on a task whose retry counter is 0, with the daemon
  reporting Error for it: the status query is the only call to the daemon (nothing is
  resubmitted) and the pair of failure notifications is raised once, with the file name
  and the daemon's error text; but the store is left as it was, so the stored record
  still has the status Active and none of the daemon's failure detail.
\<close>

theorem sync_exhausted_store_unchanged:
  "ariaRetryCountRemains sample_task = 0
   \<and> tellStatus daemon_reports_error ''g1'' = Inr (reply Error ''timeout'' ''g1'')
   \<and> failed (syncDownloadTaskStatus sample_env 10 11 daemon_reports_error daemon_reports_error
               ''g1'' (sample_store [sample_task])) = None
   \<and> trace (syncDownloadTaskStatus sample_env 10 11 daemon_reports_error daemon_reports_error
              ''g1'' (sample_store [sample_task])) =
       [RpcTellStatus ''g1'',
        AntNotificationError msg_failed (''file'' @ [CHR 0x0A] @ ''timeout''),
        SendNotification msg_failed (''file'' @ [CHR 0x0A] @ ''timeout'')]
   \<and> final (syncDownloadTaskStatus sample_env 10 11 daemon_reports_error daemon_reports_error
              ''g1'' (sample_store [sample_task])) = sample_store [sample_task]
   \<and> map status (downloadTasks
        (final (syncDownloadTaskStatus sample_env 10 11 daemon_reports_error
                  daemon_reports_error ''g1'' (sample_store [sample_task])))) = [Active]
   \<and> map error (downloadTasks
        (final (syncDownloadTaskStatus sample_env 10 11 daemon_reports_error
                  daemon_reports_error ''g1'' (sample_store [sample_task])))) = [[]]"
  by (simp add: syncDownloadTaskStatus_def mergeAriaStatusToDownloadTask_def failure_desc_def
                Let_def outcome_defs sample_defs)

lemma sync_retry_result:
  assumes "findIndex (\<lambda>v. gid v = g) (downloadTasks st) = Some i"
    and "task = downloadTasks st ! i"
    and "tellStatus d0 g = Inr st0" and "a_status st0 = Error"
    and "ariaRetryCountRemains task > 0"
    and "newTask = prepareDownloadTask ev later (post task) (media task)"
    and "addUri d (downloadUrl task) (dir newTask) (fileName newTask) = Inr g'"
    and "tellStatus d (gid task) = Inr st1"
  shows "downloadTasks (final (syncDownloadTaskStatus ev now later d0 d g st)) =
           filter (\<lambda>v. gid v \<noteq> gid task) (downloadTasks st) @
           [newTask\<lparr>ariaRetryCountRemains := ariaRetryCountRemains task - 1,
                    gid := g', status := a_status st1\<rparr>]"
  using assms
  by (simp add: syncDownloadTaskStatus_def removeDownloadTask_def Let_def outcome_defs)

text \<open>
  C5. A run of the on-demand sync on a task with two retries left, with the daemon
  reporting Error for it and then accepting the resubmission under the handle \<open>g2\<close>,
  which it reports as waiting: the old record is removed, the job is submitted again and a
  new record with the handle \<open>g2\<close> and the counter 1 is stored; but the status query
  after the submission asks for the old handle \<open>g1\<close>, so the new record carries the
  status Error of the failed job and not the status of the new one.
\<close>

theorem sync_retry_queries_old_handle:
  "tellStatus daemon_after_resubmit ''g2'' = Inr (reply Waiting [] ''g2'')
   \<and> failed (syncDownloadTaskStatus sample_env 10 11 daemon_reports_error daemon_after_resubmit
               ''g1'' (sample_store [sample_task\<lparr>ariaRetryCountRemains := 2\<rparr>])) = None
   \<and> trace (syncDownloadTaskStatus sample_env 10 11 daemon_reports_error daemon_after_resubmit
              ''g1'' (sample_store [sample_task\<lparr>ariaRetryCountRemains := 2\<rparr>])) =
       [RpcTellStatus ''g1'', RpcRemove ''g1'',
        RpcAddUri ''https://pbs.example/1.jpg'' ''/dl'' ''file'', RpcTellStatus ''g1'']
   \<and> map gid (downloadTasks
        (final (syncDownloadTaskStatus sample_env 10 11 daemon_reports_error
                  daemon_after_resubmit ''g1''
                  (sample_store [sample_task\<lparr>ariaRetryCountRemains := 2\<rparr>])))) = [''g2'']
   \<and> map ariaRetryCountRemains (downloadTasks
        (final (syncDownloadTaskStatus sample_env 10 11 daemon_reports_error
                  daemon_after_resubmit ''g1''
                  (sample_store [sample_task\<lparr>ariaRetryCountRemains := 2\<rparr>])))) = [1]
   \<and> map status (downloadTasks
        (final (syncDownloadTaskStatus sample_env 10 11 daemon_reports_error
                  daemon_after_resubmit ''g1''
                  (sample_store [sample_task\<lparr>ariaRetryCountRemains := 2\<rparr>])))) = [Error]"
  by (simp add: syncDownloadTaskStatus_def prepareDownloadTask_def removeDownloadTask_def
                Let_def outcome_defs sample_defs)

section \<open>The background poller\<close>

text \<open>
  C2. A run of the poller with one tracked handle and a daemon that rejects the batched
  status query: the run is rejected with the daemon's error after that one call, and it
  never reaches the \<^verbatim>\<open>setTimeout\<close> that would start the next run.
\<close>

theorem poller_stops_on_query_failure:
  "autoSyncTaskIds (sample_store [sample_task]) = [''g1'']
   \<and> tellStatusMany daemon_down [''g1''] = Inl ''connection refused''
   \<and> failed (scheduleAutoSyncTasks sample_env 10 daemon_down (sample_store [sample_task]))
       = Some (DaemonError ''connection refused'')
   \<and> trace (scheduleAutoSyncTasks sample_env 10 daemon_down (sample_store [sample_task]))
       = [RpcTellStatusMany [''g1'']]
   \<and> SetTimeout \<notin> set (trace (scheduleAutoSyncTasks sample_env 10 daemon_down
                                  (sample_store [sample_task])))"
  by (simp add: scheduleAutoSyncTasks_def Let_def outcome_defs sample_defs)

lemma poller_reschedules_unless_rejected:
  "failed (scheduleAutoSyncTasks ev now d st) = None \<longleftrightarrow>
   SetTimeout \<in> set (trace (scheduleAutoSyncTasks ev now d st))"
  by (simp add: scheduleAutoSyncTasks_def Let_def outcome_defs split: sum.splits)

section \<open>Filtering a page\<close>

lemma getMediaCounts_foldl:
  "foldl (\<lambda>acc elem. acc + (case medias elem of None \<Rightarrow> 0 | Some ms \<Rightarrow> int (length ms))) a posts
     = a + getMediaCounts posts"
proof (induction posts arbitrary: a)
  case Nil
  then show ?case by (simp add: getMediaCounts_def)
next
  case (Cons p ps)
  show ?case
    using Cons.IH[of "a + (case medias p of None \<Rightarrow> 0 | Some ms \<Rightarrow> int (length ms))"]
          Cons.IH[of "0 + (case medias p of None \<Rightarrow> 0 | Some ms \<Rightarrow> int (length ms))"]
    by (simp add: getMediaCounts_def)
qed

lemma getMediaCounts_Nil: "getMediaCounts [] = 0"
  by (simp add: getMediaCounts_def)

lemma getMediaCounts_Cons:
  "getMediaCounts (p # ps) =
     (case medias p of None \<Rightarrow> 0 | Some ms \<Rightarrow> int (length ms)) + getMediaCounts ps"
  using getMediaCounts_foldl[of "(case medias p of None \<Rightarrow> 0 | Some ms \<Rightarrow> int (length ms))" ps]
  by (simp add: getMediaCounts_def)

lemma getMediaCounts_split:
  "getMediaCounts posts =
     getMediaCounts (filter P posts) + getMediaCounts (filter (\<lambda>p. \<not> P p) posts)"
  by (induction posts) (simp_all add: getMediaCounts_Nil getMediaCounts_Cons)

lemma dropped_posts:
  "filter (\<lambda>p. p \<notin> set (filter P posts)) posts = filter (\<lambda>p. \<not> P p) posts"
  by (rule filter_cong) auto

lemma checkExisting_eq:
  "checkExisting ev now p ms (k, acc) =
     (k + int (length (filter (targetExists ev now) (map (\<lambda>m. (p, m)) ms))),
      acc @ filter (\<lambda>pm. \<not> targetExists ev now pm) (map (\<lambda>m. (p, m)) ms))"
  by (induction ms arbitrary: k acc) (simp_all add: targetExists_def Let_def)

lemma collectParams_eq:
  "collectParams ev now flt ps (k, acc) =
     (k + int (length (filter (targetExists ev now) (typePassing flt ps))),
      acc @ filter (\<lambda>pm. \<not> targetExists ev now pm) (typePassing flt ps))"
proof (induction ps arbitrary: k acc)
  case Nil
  then show ?case by (simp add: typePassing_def)
next
  case (Cons p ps)
  show ?case
  proof (cases "medias p")
    case None
    then show ?thesis using Cons.IH by (simp add: typePassing_def)
  next
    case (Some ms)
    then show ?thesis
      by (simp add: checkExisting_eq Cons.IH typePassing_def)
  qed
qed

text \<open>
  C3. For every page, the loop body raises the skip counter by exactly the number of media
  entries of the posts dropped by the date-bound and malformed-item filter, plus the number
  of type-passing entries of surviving posts whose target file exists while the skip-existing
  option is on; the other type-passing entries are the ones submitted. The entries of
  surviving posts that the media-type filter drops (all of them when no type filter is
  configured) are not counted.
\<close>

theorem filterPage_skip_count:
  "fst (filterPage ev now flt since until posts sc) =
     sc + getMediaCounts (filter (\<lambda>p. p \<notin> set (filterPosts since until posts)) posts)
        + int (length (filter (targetExists ev now)
                         (typePassing flt (filterPosts since until posts))))
   \<and> snd (filterPage ev now flt since until posts sc) =
       filter (\<lambda>pm. \<not> targetExists ev now pm) (typePassing flt (filterPosts since until posts))"
proof -
  let ?P = "\<lambda>p. (case medias p of None \<Rightarrow> False | Some ms \<Rightarrow> int (length ms) \<ge> 0)
                \<and> (case createdAt p of None \<Rightarrow> True | Some c \<Rightarrow> c < until)
                \<and> (case createdAt p of None \<Rightarrow> True | Some c \<Rightarrow> c > since)"
  have fp: "filterPosts since until posts = filter ?P posts"
    by (simp add: filterPosts_def)
  have "getMediaCounts posts - getMediaCounts (filter ?P posts) =
          getMediaCounts (filter (\<lambda>p. \<not> ?P p) posts)"
    using getMediaCounts_split[of posts ?P] by simp
  also have "\<dots> = getMediaCounts (filter (\<lambda>p. p \<notin> set (filter ?P posts)) posts)"
    by (simp only: dropped_posts)
  finally have cnt: "getMediaCounts posts - getMediaCounts (filterPosts since until posts) =
          getMediaCounts (filter (\<lambda>p. p \<notin> set (filterPosts since until posts)) posts)"
    by (simp only: fp)
  show ?thesis
  proof (cases "filterPosts since until posts = []")
    case True
    then show ?thesis
      using cnt by (simp add: filterPage_def Let_def typePassing_def)
  next
    case False
    then show ?thesis
      using cnt by (simp add: filterPage_def Let_def collectParams_eq)
  qed
qed

theorem filterPage_type_drop_counterexample:
  "filterPosts 0 1000 [sample_video_post] = [sample_video_post]
   \<and> medias sample_video_post = Some [sample_video]
   \<and> filterMedias sample_filter [sample_video] = []
   \<and> filterPage sample_env 0 sample_filter 0 1000 [sample_video_post] 0 = (0, [])"
  by (simp add: filterPage_def filterPosts_def filterMedias_def getMediaCounts_def Let_def
                sample_defs)

text \<open>
  A whole run on a source with one page: a post after the upper date bound, a post with a
  video and a post with a photo, under a filter for photos. The photo is submitted, and
  the published skip counter is 1: the entry of the post out of range.
\<close>

lemma runCreationTask_sample:
  "map_option (\<lambda>out. (failed out, map gid (downloadTasks (final out)),
                        map completeCount (creationTasks (final out)),
                        map skipCount (creationTasks (final out))))
     (runCreationTask sample_env sample_twitter daemon_reports_error 5 (\<lambda>k. False) 2 1000
        sample_ctask
        \<lparr>downloadTasks = [], autoSyncTaskIds = [], creationTasks = [sample_ctask]\<rparr>)
   = Some (None, [''g2''], [1], [1])"
  by (simp add: runCreationTask_def sample_ctask_def sample_twitter_def sample_defs
                numeral_2_eq_2 filterPage_def filterPosts_def filterMedias_def
                getMediaCounts_def Let_def last_createdAt_def batchCreateDownloadTask_def
                prepareDownloadTask_def updateCreationTask_def outcome_defs)

section \<open>The scheduler of creation tasks\<close>

lemma queue_inv_init: "queue_inv init_app"
  by (simp add: queue_inv_def init_app_def)

lemma queue_inv_create:
  assumes "queue_inv a" and "i \<notin> ct_id ` set (creationTasks (store a))"
  shows "queue_inv (createCreationTask i u flt a)"
  using assms
  by (auto simp: queue_inv_def createCreationTask_def split: phase.splits)

lemma distinct_map_filter_id: "distinct (map f xs) \<Longrightarrow> distinct (map f (filter P xs))"
  by (induction xs) auto

lemma queue_inv_remove:
  assumes "queue_inv a"
  shows "queue_inv (removeCreationTask i a)"
proof (cases "creationTaskAbortControllerMap a i")
  case None
  then show ?thesis using assms by (simp add: removeCreationTask_def)
next
  case (Some b)
  have "distinct (map ct_id (filter (\<lambda>v. ct_id v \<noteq> i) (creationTasks (store a))))"
    using assms by (simp add: queue_inv_def distinct_map_filter_id)
  moreover have "ct_id ` set (filter (\<lambda>v. ct_id v \<noteq> i) (creationTasks (store a)))
                   \<subseteq> dom ((creationTaskAbortControllerMap a)(i := None))"
    using assms by (auto simp: queue_inv_def)
  ultimately show ?thesis
    using assms Some
    by (auto simp: queue_inv_def removeCreationTask_def split: phase.splits)
qed

lemma updateCreationTask_ids:
  "map ct_id (creationTasks (updateCreationTask task st)) = map ct_id (creationTasks st)"
  by (simp add: updateCreationTask_def)

lemma updateCreationTask_set:
  "x \<in> set (creationTasks (updateCreationTask task st)) \<Longrightarrow>
   x = task \<or> (x \<in> set (creationTasks st) \<and> ct_id x \<noteq> ct_id task)"
  by (auto simp: updateCreationTask_def split: if_splits)

lemma queue_inv_publish:
  assumes "queue_inv a" and "phase a = Running task"
  shows "queue_inv (a\<lparr>store := updateCreationTask
                                  (task\<lparr>completeCount := cc, skipCount := sc\<rparr>) (store a)\<rparr>)"
proof -
  let ?t = "task\<lparr>completeCount := cc, skipCount := sc\<rparr>"
  let ?st = "updateCreationTask ?t (store a)"
  have ids: "map ct_id (creationTasks ?st) = map ct_id (creationTasks (store a))"
    by (rule updateCreationTask_ids)
  have d: "distinct (map ct_id (creationTasks ?st))"
    using assms(1) ids by (simp add: queue_inv_def)
  have "ct_id ` set (creationTasks ?st) = ct_id ` set (creationTasks (store a))"
    using ids by (metis list.set_map)
  then have s: "ct_id ` set (creationTasks ?st) \<subseteq> dom (creationTaskAbortControllerMap a)"
    using assms(1) by (simp add: queue_inv_def)
  have act: "ct_status task = CActive"
    using assms by (simp add: queue_inv_def)
  have old: "\<forall>x\<in>set (creationTasks (store a)). ct_status x = CActive \<longrightarrow> ct_id x = ct_id task"
    using assms by (simp add: queue_inv_def)
  have new: "\<forall>x\<in>set (creationTasks ?st). ct_status x = CActive \<longrightarrow> ct_id x = ct_id task"
  proof (intro ballI impI)
    fix x assume x: "x \<in> set (creationTasks ?st)" and xa: "ct_status x = CActive"
    from updateCreationTask_set[OF x]
    show "ct_id x = ct_id task"
      using old xa by auto
  qed
  show ?thesis
    using d s act new assms(2) by (simp add: queue_inv_def)
qed

lemma find_active_None:
  "find (\<lambda>t. ct_status t = CActive) xs = None \<longleftrightarrow> (\<forall>x\<in>set xs. ct_status x \<noteq> CActive)"
  by (induction xs) auto

lemma queue_inv_begin:
  assumes "queue_inv a" and "phase a = Idle"
  shows "queue_inv (scheduleCreationTasks_begin a)"
proof (cases "creationTasks (store a)")
  case Nil
  then show ?thesis
    using assms by (simp add: scheduleCreationTasks_begin_def queue_inv_def)
next
  case (Cons task rest)
  have none: "\<forall>x\<in>set (creationTasks (store a)). ct_status x \<noteq> CActive"
    using assms by (simp add: queue_inv_def)
  then have nf: "find (\<lambda>t. ct_status t = CActive) (creationTasks (store a)) = None"
    by (simp add: find_active_None)
  from assms(1) Cons obtain b where b: "creationTaskAbortControllerMap a (ct_id task) = Some b"
    by (auto simp: queue_inv_def)
  show ?thesis
  proof (cases b)
    case True
    have "queue_inv (removeCreationTask (ct_id task) a)"
      by (rule queue_inv_remove[OF assms(1)])
    moreover have "phase (removeCreationTask (ct_id task) a) = Idle"
      using assms(2) by (simp add: removeCreationTask_def split: option.splits)
    ultimately have "queue_inv ((removeCreationTask (ct_id task) a)
                                  \<lparr>emitted := emitted a @ [RequestIdleCallback]\<rparr>)"
      by (simp add: queue_inv_def)
    then show ?thesis
      using Cons nf b True by (simp add: scheduleCreationTasks_begin_def)
  next
    case False
    let ?t = "task\<lparr>ct_status := CActive\<rparr>"
    let ?m = "(store a)\<lparr>creationTasks := ?t # rest\<rparr>"
    have notin: "ct_id task \<notin> ct_id ` set rest"
      using assms(1) Cons by (auto simp: queue_inv_def)
    have "map (\<lambda>oldTask. if ct_id oldTask = ct_id task then ?t else oldTask) rest = rest"
    proof (rule map_idI)
      fix x assume "x \<in> set rest"
      with notin have "ct_id x \<noteq> ct_id task" by (metis imageI)
      then show "(if ct_id x = ct_id task then ?t else x) = x" by simp
    qed
    then have upd: "creationTasks (updateCreationTask ?t ?m) = ?t # rest"
      by (simp add: updateCreationTask_def)
    have res: "scheduleCreationTasks_begin a =
                 a\<lparr>store := updateCreationTask ?t ?m, phase := Running ?t\<rparr>"
      using Cons nf b False by (simp add: scheduleCreationTasks_begin_def Let_def)
    have "\<forall>x\<in>set rest. ct_status x \<noteq> CActive"
      using none Cons by simp
    then show ?thesis
      using assms(1) Cons upd by (auto simp: res queue_inv_def)
  qed
qed

lemma queue_inv_end:
  assumes "queue_inv a" and "phase a = Running task"
  shows "queue_inv (scheduleCreationTasks_end task res a)"
proof -
  let ?a = "removeCreationTask (ct_id task) a"
  have inv: "queue_inv ?a" by (rule queue_inv_remove[OF assms(1)])
  have ph: "phase ?a = Running task"
    using assms(2) by (simp add: removeCreationTask_def split: option.splits)
  have gone: "ct_id task \<notin> ct_id ` set (creationTasks (store ?a))"
  proof (cases "creationTaskAbortControllerMap a (ct_id task)")
    case None
    then show ?thesis using assms(1) by (auto simp: queue_inv_def removeCreationTask_def)
  next
    case (Some b)
    then show ?thesis by (auto simp: removeCreationTask_def)
  qed
  have only: "\<forall>x\<in>set (creationTasks (store ?a)). ct_status x = CActive \<longrightarrow> ct_id x = ct_id task"
    using inv ph by (simp add: queue_inv_def)
  have "\<forall>x\<in>set (creationTasks (store ?a)). ct_status x \<noteq> CActive"
  proof
    fix x assume x: "x \<in> set (creationTasks (store ?a))"
    show "ct_status x \<noteq> CActive"
    proof
      assume "ct_status x = CActive"
      with only x have "ct_id x = ct_id task" by simp
      with gone x show False by (metis imageI)
    qed
  qed
  then show ?thesis
    using inv by (cases res) (simp_all add: scheduleCreationTasks_end_def Let_def queue_inv_def)
qed

lemma step_queue_inv:
  assumes "queue_inv a" and "fresh_id x a" and "step x a = Some a'"
  shows "queue_inv a'"
proof (cases x)
  case (Create i u flt)
  with assms show ?thesis by (auto simp: fresh_id_def intro: queue_inv_create)
next
  case (Remove i)
  with assms show ?thesis by (auto intro: queue_inv_remove)
next
  case SchedulerBegin
  with assms show ?thesis by (auto split: if_splits intro: queue_inv_begin)
next
  case (RunnerPublish cc sc)
  with assms show ?thesis by (auto split: phase.splits intro: queue_inv_publish)
next
  case (SchedulerEnd res)
  with assms show ?thesis by (auto split: phase.splits intro: queue_inv_end)
qed

lemma run_queue_inv:
  "queue_inv a \<Longrightarrow> fresh_ids xs a \<Longrightarrow> run xs a = Some a' \<Longrightarrow> queue_inv a'"
proof (induction xs arbitrary: a)
  case Nil
  then show ?case by simp
next
  case (Cons x xs)
  from Cons.prems(3) obtain b where b: "step x a = Some b" "run xs b = Some a'"
    by (auto split: option.splits)
  from Cons.prems(2) b(1) have f: "fresh_id x a" "fresh_ids xs b"
    by simp_all
  have "queue_inv b"
    by (rule step_queue_inv[OF Cons.prems(1) f(1) b(1)])
  then show ?case
    by (rule Cons.IH[OF _ f(2) b(2)])
qed

lemma at_most_one_with_id:
  "distinct (map f xs) \<Longrightarrow> \<forall>x\<in>set xs. P x \<longrightarrow> f x = i \<Longrightarrow> length (filter P xs) \<le> 1"
proof (induction xs)
  case Nil
  then show ?case by simp
next
  case (Cons x xs)
  show ?case
  proof (cases "P x")
    case True
    with Cons.prems have fx: "f x = i" by simp
    have "\<forall>y\<in>set xs. \<not> P y"
    proof
      fix y assume y: "y \<in> set xs"
      show "\<not> P y"
      proof
        assume "P y"
        with Cons.prems y have "f y = f x" using fx by simp
        moreover from Cons.prems have "f x \<notin> f ` set xs" by simp
        ultimately show False using y by (metis imageI)
      qed
    qed
    then have "filter P xs = []" by (simp add: filter_empty_conv)
    with True show ?thesis by simp
  next
    case False
    with Cons show ?thesis by simp
  qed
qed

lemma queue_inv_activeCount: "queue_inv a \<Longrightarrow> activeCount a \<le> 1"
proof (cases "phase a")
  case (Running t)
  assume "queue_inv a"
  with Running show ?thesis
    unfolding activeCount_def
    by (intro at_most_one_with_id[where f = ct_id and i = "ct_id t"])
       (simp_all add: queue_inv_def)
qed (auto simp: queue_inv_def activeCount_def filter_empty_conv)

lemma begin_keeps_active_store:
  assumes "\<exists>x\<in>set (creationTasks (store b)). ct_status x = CActive"
  shows "store (scheduleCreationTasks_begin b) = store b
       \<and> phase (scheduleCreationTasks_begin b) = phase b"
proof -
  from assms have "find (\<lambda>t. ct_status t = CActive) (creationTasks (store b)) \<noteq> None"
    by (simp add: find_active_None)
  then show ?thesis
    by (cases "creationTasks (store b)") (simp_all add: scheduleCreationTasks_begin_def)
qed

lemma begin_checks_active:
  assumes "phase b = Idle" and "phase (scheduleCreationTasks_begin b) = Running t"
  shows "\<forall>x\<in>set (creationTasks (store b)). ct_status x \<noteq> CActive"
proof (rule ccontr)
  assume "\<not> (\<forall>x\<in>set (creationTasks (store b)). ct_status x \<noteq> CActive)"
  then have "\<exists>x\<in>set (creationTasks (store b)). ct_status x = CActive" by simp
  from begin_keeps_active_store[OF this] assms show False by simp
qed

text \<open>
  C7. In every state the queue reaches through creates, removals and the steps of the
  scheduler and its runner, run from the state at module load with every create coming
  with an id that no queued task has, at most one creation task of the store is active.
  The scheduler checks before it marks a task: in any state whatever, an iteration that
  finds an active task leaves the store and its own phase as they are, and an iteration
  that starts idle and goes on to run a task found no active task in the store.
\<close>

theorem scheduler_mutual_exclusion:
  assumes "run ops init_app = Some a" and "fresh_ids ops init_app"
  shows "activeCount a \<le> 1
       \<and> (\<forall>b. (\<exists>x\<in>set (creationTasks (store b)). ct_status x = CActive) \<longrightarrow>
              store (scheduleCreationTasks_begin b) = store b
              \<and> phase (scheduleCreationTasks_begin b) = phase b)
       \<and> (\<forall>b t. phase b = Idle \<longrightarrow> phase (scheduleCreationTasks_begin b) = Running t \<longrightarrow>
              (\<forall>x\<in>set (creationTasks (store b)). ct_status x \<noteq> CActive))"
proof -
  have "queue_inv a"
    by (rule run_queue_inv[OF queue_inv_init assms(2) assms(1)])
  then have "activeCount a \<le> 1"
    by (rule queue_inv_activeCount)
  moreover have "\<forall>b. (\<exists>x\<in>set (creationTasks (store b)). ct_status x = CActive) \<longrightarrow>
              store (scheduleCreationTasks_begin b) = store b
              \<and> phase (scheduleCreationTasks_begin b) = phase b"
    using begin_keeps_active_store by blast
  moreover have "\<forall>b t. phase b = Idle \<longrightarrow> phase (scheduleCreationTasks_begin b) = Running t \<longrightarrow>
              (\<forall>x\<in>set (creationTasks (store b)). ct_status x \<noteq> CActive)"
    using begin_checks_active by blast
  ultimately show ?thesis by blast
qed

theorem scheduler_mutual_exclusion_witness:
  "run [Create ''a'' sample_user sample_filter, Create ''b'' sample_user sample_filter,
        SchedulerBegin] init_app
     = Some (scheduleCreationTasks_begin
               (createCreationTask ''b'' sample_user sample_filter
                  (createCreationTask ''a'' sample_user sample_filter init_app)))
   \<and> fresh_ids [Create ''a'' sample_user sample_filter, Create ''b'' sample_user sample_filter,
                SchedulerBegin] init_app
   \<and> map ct_status (creationTasks (store (scheduleCreationTasks_begin
                (createCreationTask ''b'' sample_user sample_filter
                   (createCreationTask ''a'' sample_user sample_filter init_app)))))
       = [CActive, CWaiting]
   \<and> activeCount (scheduleCreationTasks_begin
                (createCreationTask ''b'' sample_user sample_filter
                   (createCreationTask ''a'' sample_user sample_filter init_app))) \<le> 1"
proof -
  let ?ops = "[Create ''a'' sample_user sample_filter, Create ''b'' sample_user sample_filter,
               SchedulerBegin]"
  let ?a2 = "createCreationTask ''b'' sample_user sample_filter
               (createCreationTask ''a'' sample_user sample_filter init_app)"
  have r: "run ?ops init_app = Some (scheduleCreationTasks_begin ?a2)"
    by (simp add: createCreationTask_def init_app_def)
  have f: "fresh_ids ?ops init_app"
    by (simp add: fresh_id_def createCreationTask_def init_app_def)
  have st: "map ct_status (creationTasks (store (scheduleCreationTasks_begin ?a2)))
              = [CActive, CWaiting]"
    by (simp add: scheduleCreationTasks_begin_def createCreationTask_def
                  updateCreationTask_def init_app_def Let_def)
  from scheduler_mutual_exclusion[OF r f]
  have "activeCount (scheduleCreationTasks_begin ?a2) \<le> 1" by blast
  with r f st show ?thesis by simp
qed

theorem scheduler_colliding_id_counterexample:
  "run [Create ''a'' sample_user sample_filter, Create ''a'' sample_user sample_filter,
        SchedulerBegin] init_app
     = Some (scheduleCreationTasks_begin
               (createCreationTask ''a'' sample_user sample_filter
                  (createCreationTask ''a'' sample_user sample_filter init_app)))
   \<and> map ct_status (creationTasks (store (scheduleCreationTasks_begin
                (createCreationTask ''a'' sample_user sample_filter
                   (createCreationTask ''a'' sample_user sample_filter init_app)))))
       = [CActive, CActive]
   \<and> activeCount (scheduleCreationTasks_begin
                (createCreationTask ''a'' sample_user sample_filter
                   (createCreationTask ''a'' sample_user sample_filter init_app))) = 2"
  by (simp add: scheduleCreationTasks_begin_def createCreationTask_def updateCreationTask_def
                activeCount_def init_app_def Let_def)

end
